theory Spec2Isabelle
  imports Complex_Main
begin

section \<open>The Experiment class of tensorflow.contrib.learn\<close>

text \<open>
  The module \<^verbatim>\<open>experiment.py\<close> sequences calls to an Estimator, sleeps between them
  and logs what it does. The Estimator, the clock, \<^verbatim>\<open>time.sleep\<close> and the logger are
  collaborators outside the module. The embedding makes them explicit:
  \<^item> the world carries a logical clock (seconds, as a real number), a store of list
    objects (the monitor lists, which Python shares by reference) and the trace of
    everything observable the module did, each event stamped with the clock value at
    which it began;
  \<^item> the Estimator is a function of the world and of the call it receives, answering
    with a value or an exception and with the time the call took;
  \<^item> \<^verbatim>\<open>time.sleep\<close> is a function giving the time a sleep really blocks;
  \<^item> an exception is the left injection of a sum, and every method returns the world
    next to its result, since an exception keeps the effects that came before it.

  What lies outside the module is taken as follows. A call of the Estimator comes back,
  with a value or with an exception, and leaves the Experiment and its monitor lists as
  they are. Logging takes no time. Times are real numbers: the rounding of Python's
  floats is not part of the model.
\<close>

subsection \<open>Data\<close>

type_synonym input_fn = string
type_synonym metrics = "string list"
type_synonym ref = nat

text \<open>The arguments of \<^verbatim>\<open>monitors.ValidationMonitor(input_fn=, eval_steps=, metrics=,
  every_n_steps=)\<close>; any other monitor is opaque.\<close>

datatype monitor =
    ValidationMonitor input_fn "int option" "metrics option" int
  | OtherMonitor nat

text \<open>\<^verbatim>\<open>fit(input_fn=, max_steps=, monitors=)\<close> and
  \<^verbatim>\<open>evaluate(input_fn=, steps=, metrics=, name=)\<close>. The monitor list is passed as
  the reference the Experiment holds (or None).\<close>

datatype est_call =
    Fit input_fn "int option" "ref option"
  | Evaluate input_fn "int option" "metrics option" string

datatype exn = NotFittedError | SleepError | OtherError string

datatype retval = Ret nat

datatype level = INFO | WARNING

datatype event =
    Log level string "real list"
  | Sleep real
  | Call est_call

record world =
  clock :: real
  heap :: "ref \<Rightarrow> monitor list"
  next_ref :: ref
  trace :: "(real \<times> event) list"

record outcome =
  result :: "exn + retval"
  elapsed :: real

type_synonym sleeper = "world \<Rightarrow> real \<Rightarrow> real"

record Experiment =
  estimator :: "world \<Rightarrow> est_call \<Rightarrow> outcome"
  train_input_fn :: input_fn
  eval_input_fn :: input_fn
  eval_metrics :: "metrics option"
  train_steps :: "int option"
  eval_steps :: "int option"
  train_monitors :: "ref option"
  local_eval_frequency :: "int option"

subsection \<open>The collaborators\<close>

text \<open>\<^verbatim>\<open>logging.info\<close> and \<^verbatim>\<open>logging.warning\<close>: the format string and its
  arguments are recorded.\<close>

definition logging :: "level \<Rightarrow> string \<Rightarrow> real list \<Rightarrow> world \<Rightarrow> world" where
  "logging lvl fmt args w = w\<lparr>trace := trace w @ [(clock w, Log lvl fmt args)]\<rparr>"

text \<open>\<^verbatim>\<open>time.sleep(secs)\<close> refuses a negative argument with an exception; otherwise
  the clock advances by the time the platform really blocked.\<close>

definition time_sleep :: "sleeper \<Rightarrow> real \<Rightarrow> world \<Rightarrow> (exn + unit) \<times> world" where
  "time_sleep slp secs w =
     (if secs < 0 then (Inl SleepError, w)
      else (Inr (), w\<lparr>clock := clock w + slp w secs,
                       trace := trace w @ [(clock w, Sleep secs)]\<rparr>))"

text \<open>A call of the Estimator: the call is recorded when it starts, the clock advances
  by the time it took, and its value or exception comes back.\<close>

definition call_estimator :: "Experiment \<Rightarrow> est_call \<Rightarrow> world \<Rightarrow> (exn + retval) \<times> world" where
  "call_estimator e c w =
     (let out = estimator e w c
      in (result out, w\<lparr>clock := clock w + elapsed out,
                         trace := trace w @ [(clock w, Call c)]\<rparr>))"

text \<open>A new list object \<^verbatim>\<open>[]\<close>.\<close>

definition new_list :: "world \<Rightarrow> ref \<times> world" where
  "new_list w = (next_ref w, w\<lparr>heap := (heap w)(next_ref w := []), next_ref := Suc (next_ref w)\<rparr>)"

subsection \<open>The methods\<close>

text \<open>\<^verbatim>\<open>Experiment.train(delay_secs=0)\<close>. The test \<^verbatim>\<open>if delay_secs:\<close> is Python's
  truth value of a number: it is false at zero only.\<close>

definition train :: "sleeper \<Rightarrow> Experiment \<Rightarrow> real \<Rightarrow> world \<Rightarrow> (exn + retval) \<times> world" where
  "train slp e delay_secs w =
     (if delay_secs \<noteq> 0 then
        (case time_sleep slp delay_secs
                (logging INFO ''Waiting %d secs before starting training.'' [delay_secs] w) of
           (Inl x, w1) \<Rightarrow> (Inl x, w1)
         | (Inr _, w1) \<Rightarrow>
             call_estimator e (Fit (train_input_fn e) (train_steps e) (train_monitors e)) w1)
      else call_estimator e (Fit (train_input_fn e) (train_steps e) (train_monitors e)) w)"

text \<open>\<^verbatim>\<open>Experiment.evaluate(delay_secs=0)\<close>.\<close>

definition evaluate :: "sleeper \<Rightarrow> Experiment \<Rightarrow> real \<Rightarrow> world \<Rightarrow> (exn + retval) \<times> world" where
  "evaluate slp e delay_secs w =
     (if delay_secs \<noteq> 0 then
        (case time_sleep slp delay_secs
                (logging INFO ''Waiting %d secs before starting eval.'' [delay_secs] w) of
           (Inl x, w1) \<Rightarrow> (Inl x, w1)
         | (Inr _, w1) \<Rightarrow>
             call_estimator e
               (Evaluate (eval_input_fn e) (eval_steps e) (eval_metrics e) ''one_pass'') w1)
      else call_estimator e
             (Evaluate (eval_input_fn e) (eval_steps e) (eval_metrics e) ''one_pass'') w)"

text \<open>The first statements of \<^verbatim>\<open>local_run\<close> (lines 124 to 129), which prepare the
  monitor list. \<^verbatim>\<open>self._train_monitors or []\<close> keeps the stored list when it is
  neither None nor empty and makes a new empty list otherwise; \<^verbatim>\<open>+=\<close> on a list
  extends the list object in place. \<^verbatim>\<open>if self._local_eval_frequency:\<close> is false for
  None and for zero.\<close>

definition local_run_monitors :: "Experiment \<Rightarrow> world \<Rightarrow> Experiment \<times> world" where
  "local_run_monitors e w =
     (let (r, w1) = (case train_monitors e of
                       None \<Rightarrow> new_list w
                     | Some r0 \<Rightarrow> if heap w r0 = [] then new_list w else (r0, w));
          e1 = e\<lparr>train_monitors := Some r\<rparr>
      in case local_eval_frequency e1 of
           None \<Rightarrow> (e1, w1)
         | Some n \<Rightarrow>
             if n \<noteq> 0 then
               (e1, w1\<lparr>heap := (heap w1)(r := heap w1 r @
                    [ValidationMonitor (eval_input_fn e1) (eval_steps e1) (eval_metrics e1) n])\<rparr>)
             else (e1, w1))"

text \<open>\<^verbatim>\<open>Experiment.local_run()\<close>: the object itself changes (its monitor field), so
  the updated Experiment is returned too.\<close>

definition local_run :: "sleeper \<Rightarrow> Experiment \<Rightarrow> world \<Rightarrow> (exn + retval) \<times> Experiment \<times> world" where
  "local_run slp e w =
     (let (e1, w1) = local_run_monitors e w
      in case train slp e1 0 w1 of
           (Inl x, w2) \<Rightarrow> (Inl x, e1, w2)
         | (Inr _, w2) \<Rightarrow>
             (case evaluate slp e1 0 w2 of (res, w3) \<Rightarrow> (res, e1, w3)))"

text \<open>The end of the loop body of \<^verbatim>\<open>_continuous_eval\<close> (lines 165 to 170): the
  time since \<open>start\<close> is measured, and the rest of the throttle window, if any, is
  slept.\<close>

definition throttle_wait :: "sleeper \<Rightarrow> real \<Rightarrow> real \<Rightarrow> world \<Rightarrow> (exn + unit) \<times> world" where
  "throttle_wait slp throttle_delay_secs start w =
     (let duration = clock w - start
      in if duration < throttle_delay_secs then
           (let difference = throttle_delay_secs - duration
            in time_sleep slp difference
                 (logging INFO ''Waiting %f secs before starting next eval run.''
                    [difference] w))
         else (Inr (), w))"

text \<open>One pass through the body of the \<^verbatim>\<open>while True:\<close> loop of
  \<^verbatim>\<open>_continuous_eval\<close> (lines 156 to 170). The handler of NotFittedError only logs,
  so control goes on to the throttle; any other exception leaves the pass at once.\<close>

definition eval_iteration ::
  "sleeper \<Rightarrow> Experiment \<Rightarrow> input_fn \<Rightarrow> string \<Rightarrow> real \<Rightarrow> world \<Rightarrow> (exn + unit) \<times> world" where
  "eval_iteration slp e input_fn name throttle_delay_secs w =
     (let start = clock w
      in case (case call_estimator e (Evaluate input_fn (eval_steps e) (eval_metrics e) name) w of
                 (Inl x, w1) \<Rightarrow>
                   if x = NotFittedError then
                     (Inr (), logging WARNING
                        ''Estimator is not fitted yet, skipping evaluation. Increase 'delay_secs' to avoid this warning.''
                        [] w1)
                   else (Inl x, w1)
               | (Inr _, w1) \<Rightarrow> (Inr (), w1)) of
           (Inl x, w2) \<Rightarrow> (Inl x, w2)
         | (Inr _, w2) \<Rightarrow> throttle_wait slp throttle_delay_secs start w2)"

text \<open>The loop never ends by itself: it stops only when an exception leaves it. With
  fuel \<open>n\<close> it is followed for at most \<open>n\<close> passes; the answer None says that the
  loop is still running after them.\<close>

fun eval_loop ::
  "nat \<Rightarrow> sleeper \<Rightarrow> Experiment \<Rightarrow> input_fn \<Rightarrow> string \<Rightarrow> real \<Rightarrow> world \<Rightarrow> exn option \<times> world" where
  "eval_loop 0 slp e input_fn name throttle_delay_secs w = (None, w)"
| "eval_loop (Suc n) slp e input_fn name throttle_delay_secs w =
     (case eval_iteration slp e input_fn name throttle_delay_secs w of
        (Inl x, w1) \<Rightarrow> (Some x, w1)
      | (Inr _, w1) \<Rightarrow> eval_loop n slp e input_fn name throttle_delay_secs w1)"

text \<open>\<^verbatim>\<open>Experiment._continuous_eval(input_fn, name, delay_secs=0, throttle_delay_secs=60)\<close>.\<close>

definition private_continuous_eval ::
  "nat \<Rightarrow> sleeper \<Rightarrow> Experiment \<Rightarrow> input_fn \<Rightarrow> string \<Rightarrow> real \<Rightarrow> real \<Rightarrow> world
     \<Rightarrow> exn option \<times> world" where
  "private_continuous_eval n slp e input_fn name delay_secs throttle_delay_secs w =
     (if delay_secs \<noteq> 0 then
        (case time_sleep slp delay_secs
                (logging INFO ''Waiting %f secs before starting eval.'' [delay_secs] w) of
           (Inl x, w1) \<Rightarrow> (Some x, w1)
         | (Inr _, w1) \<Rightarrow> eval_loop n slp e input_fn name throttle_delay_secs w1)
      else eval_loop n slp e input_fn name throttle_delay_secs w)"

definition continuous_eval ::
  "nat \<Rightarrow> sleeper \<Rightarrow> Experiment \<Rightarrow> real \<Rightarrow> real \<Rightarrow> world \<Rightarrow> exn option \<times> world" where
  "continuous_eval n slp e delay_secs throttle_delay_secs w =
     private_continuous_eval n slp e (eval_input_fn e) ''continuous''
       delay_secs throttle_delay_secs w"

definition continuous_eval_on_train_data ::
  "nat \<Rightarrow> sleeper \<Rightarrow> Experiment \<Rightarrow> real \<Rightarrow> real \<Rightarrow> world \<Rightarrow> exn option \<times> world" where
  "continuous_eval_on_train_data n slp e delay_secs throttle_delay_secs w =
     private_continuous_eval n slp e (train_input_fn e) ''continuous_on_train_data''
       delay_secs throttle_delay_secs w"

subsection \<open>Observing a run\<close>

text \<open>What a run added to the trace, the Estimator calls among some events, the times
  at which they began, and the sleeps that were asked for.\<close>

definition events_since :: "world \<Rightarrow> world \<Rightarrow> (real \<times> event) list" where
  "events_since w w' = drop (length (trace w)) (trace w')"

fun calls_of :: "(real \<times> event) list \<Rightarrow> (real \<times> est_call) list" where
  "calls_of [] = []"
| "calls_of ((t, ev) # tr) = (case ev of Call c \<Rightarrow> (t, c) # calls_of tr | _ \<Rightarrow> calls_of tr)"

fun sleeps_of :: "(real \<times> event) list \<Rightarrow> real list" where
  "sleeps_of [] = []"
| "sleeps_of ((t, ev) # tr) = (case ev of Sleep d \<Rightarrow> d # sleeps_of tr | _ \<Rightarrow> sleeps_of tr)"

text \<open>The monitors the Experiment holds: the content of the list object its field refers
  to, and no monitors when the field is None.\<close>

definition monitor_list :: "Experiment \<Rightarrow> world \<Rightarrow> monitor list" where
  "monitor_list e w = (case train_monitors e of None \<Rightarrow> [] | Some r \<Rightarrow> heap w r)"

text \<open>Successive times are at least \<open>d\<close> apart.\<close>

fun spaced :: "real \<Rightarrow> real list \<Rightarrow> bool" where
  "spaced d (a # b # ts) = (a + d \<le> b \<and> spaced d (b # ts))"
| "spaced d ts = True"

text \<open>\<^verbatim>\<open>time.sleep\<close> blocks for at least the time asked for. The theorems about
  spacing in time take this as their assumption on the platform.\<close>

definition sleeps_long_enough :: "sleeper \<Rightarrow> bool" where
  "sleeps_long_enough slp = (\<forall>w secs. secs \<le> slp w secs)"

subsection \<open>A concrete run\<close>

text \<open>An Estimator that is not fitted during the first minute, answers after that, and
  fails for good after five minutes; fitting takes a hundred seconds and fails after five
  minutes too. An Experiment
  around it, an empty world, and a platform whose sleeps last exactly as long as asked.\<close>

definition example_estimator :: "world \<Rightarrow> est_call \<Rightarrow> outcome" where
  "example_estimator w c =
     (case c of
        Fit i s m \<Rightarrow>
          if clock w < 300 then \<lparr>result = Inr (Ret 1), elapsed = 100\<rparr>
          else \<lparr>result = Inl (OtherError ''out of memory''), elapsed = 1\<rparr>
      | Evaluate i s m name \<Rightarrow>
          if clock w < 60 then \<lparr>result = Inl NotFittedError, elapsed = 10\<rparr>
          else if clock w < 300 then \<lparr>result = Inr (Ret 2), elapsed = 70\<rparr>
          else \<lparr>result = Inl (OtherError ''checkpoint unreadable''), elapsed = 1\<rparr>)"

definition example_experiment :: Experiment where
  "example_experiment =
     \<lparr>estimator = example_estimator, train_input_fn = ''train_input'',
      eval_input_fn = ''eval_input'', eval_metrics = None, train_steps = Some 1000,
      eval_steps = Some 100, train_monitors = None, local_eval_frequency = Some 5\<rparr>"

definition example_world :: world where
  "example_world = \<lparr>clock = 0, heap = (\<lambda>r. []), next_ref = 0, trace = []\<rparr>"

definition exact_sleep :: sleeper where
  "exact_sleep w secs = secs"

section \<open>Properties\<close>

subsection \<open>Traces and the collaborators\<close>

lemma calls_of_append: "calls_of (xs @ ys) = calls_of xs @ calls_of ys"
  by (induction xs) (auto split: event.splits)

lemma spaced_Cons: "spaced d (a # ts) = ((ts = [] \<or> a + d \<le> hd ts) \<and> spaced d ts)"
  by (cases ts) auto

lemma time_sleep_fst: "0 \<le> secs \<Longrightarrow> fst (time_sleep slp secs w) = Inr ()"
  by (simp add: time_sleep_def)

lemma time_sleep_trace: "0 \<le> secs \<Longrightarrow> trace (snd (time_sleep slp secs w)) = trace w @ [(clock w, Sleep secs)]"
  by (simp add: time_sleep_def)

lemma time_sleep_heap: "heap (snd (time_sleep slp secs w)) = heap w"
  by (simp add: time_sleep_def)

lemma time_sleep_clock:
  "sleeps_long_enough slp \<Longrightarrow> 0 \<le> secs \<Longrightarrow> clock w + secs \<le> clock (snd (time_sleep slp secs w))"
  by (simp add: time_sleep_def sleeps_long_enough_def)

lemma logging_simps:
  "clock (logging lvl fmt args w) = clock w"
  "heap (logging lvl fmt args w) = heap w"
  "trace (logging lvl fmt args w) = trace w @ [(clock w, Log lvl fmt args)]"
  by (simp_all add: logging_def)

lemma call_estimator_simps:
  "fst (call_estimator e c w) = result (estimator e w c)"
  "clock (snd (call_estimator e c w)) = clock w + elapsed (estimator e w c)"
  "heap (snd (call_estimator e c w)) = heap w"
  "trace (snd (call_estimator e c w)) = trace w @ [(clock w, Call c)]"
  by (simp_all add: call_estimator_def Let_def)

lemma throttle_wait_fst: "fst (throttle_wait slp thr start w) = Inr ()"
  by (simp add: throttle_wait_def Let_def time_sleep_fst)

lemma throttle_wait_trace:
  "trace (snd (throttle_wait slp thr start w)) = trace w @
     (if clock w - start < thr
      then [(clock w, Log INFO ''Waiting %f secs before starting next eval run.'' [thr - (clock w - start)]),
            (clock w, Sleep (thr - (clock w - start)))]
      else [])"
  by (simp add: throttle_wait_def Let_def time_sleep_trace logging_simps)

lemma throttle_wait_clock:
  assumes "sleeps_long_enough slp"
  shows "start + thr \<le> clock (snd (throttle_wait slp thr start w))"
proof (cases "clock w - start < thr")
  case True
  then have "0 \<le> thr - (clock w - start)" by simp
  from time_sleep_clock [OF assms this, of "logging INFO ''Waiting %f secs before starting next eval run.'' [thr - (clock w - start)] w"]
  show ?thesis using True by (simp add: throttle_wait_def Let_def logging_simps)
next
  case False
  then show ?thesis by (simp add: throttle_wait_def Let_def)
qed

lemma throttle_wait_no_wait: "\<not> clock w - start < thr \<Longrightarrow> throttle_wait slp thr start w = (Inr (), w)"
  by (simp add: throttle_wait_def Let_def)

lemma eval_iteration_raises:
  assumes "result (estimator e w (Evaluate input_fn (eval_steps e) (eval_metrics e) name)) = Inl x"
    and "x \<noteq> NotFittedError"
  shows "eval_iteration slp e input_fn name thr w =
     (Inl x, snd (call_estimator e (Evaluate input_fn (eval_steps e) (eval_metrics e) name) w))"
  using assms by (simp add: eval_iteration_def call_estimator_def Let_def)

lemma eval_iteration_not_fitted:
  assumes "result (estimator e w (Evaluate input_fn (eval_steps e) (eval_metrics e) name)) = Inl NotFittedError"
  shows "eval_iteration slp e input_fn name thr w =
     throttle_wait slp thr (clock w)
       (logging WARNING
          ''Estimator is not fitted yet, skipping evaluation. Increase 'delay_secs' to avoid this warning.''
          [] (snd (call_estimator e (Evaluate input_fn (eval_steps e) (eval_metrics e) name) w)))"
  using assms by (simp add: eval_iteration_def call_estimator_def Let_def)

lemma eval_iteration_value:
  assumes "result (estimator e w (Evaluate input_fn (eval_steps e) (eval_metrics e) name)) = Inr v"
  shows "eval_iteration slp e input_fn name thr w =
     throttle_wait slp thr (clock w)
       (snd (call_estimator e (Evaluate input_fn (eval_steps e) (eval_metrics e) name) w))"
  using assms by (simp add: eval_iteration_def call_estimator_def Let_def)

lemma eval_iteration_trace:
  "\<exists>rest. trace (snd (eval_iteration slp e input_fn name thr w)) =
      trace w @ (clock w, Call (Evaluate input_fn (eval_steps e) (eval_metrics e) name)) # rest
    \<and> calls_of rest = []"
proof (cases "result (estimator e w (Evaluate input_fn (eval_steps e) (eval_metrics e) name))")
  case (Inl x)
  show ?thesis
  proof (cases "x = NotFittedError")
    case True
    with Inl show ?thesis
      by (simp add: eval_iteration_not_fitted throttle_wait_trace logging_simps call_estimator_simps)
  next
    case False
    with Inl show ?thesis
      by (simp add: eval_iteration_raises call_estimator_simps)
  qed
next
  case (Inr v)
  then show ?thesis
    by (simp add: eval_iteration_value throttle_wait_trace call_estimator_simps)
qed

lemma eval_iteration_clock:
  assumes "sleeps_long_enough slp" and "fst (eval_iteration slp e input_fn name thr w) = Inr u"
  shows "clock w + thr \<le> clock (snd (eval_iteration slp e input_fn name thr w))"
proof (cases "result (estimator e w (Evaluate input_fn (eval_steps e) (eval_metrics e) name))")
  case (Inl x)
  show ?thesis
  proof (cases "x = NotFittedError")
    case True
    with Inl assms(1) show ?thesis
      by (simp add: eval_iteration_not_fitted throttle_wait_clock)
  next
    case False
    with Inl assms(2) show ?thesis
      by (simp add: eval_iteration_raises)
  qed
next
  case (Inr v)
  with assms(1) show ?thesis
    by (simp add: eval_iteration_value throttle_wait_clock)
qed

lemma eval_loop_run:
  assumes "sleeps_long_enough slp"
  shows "\<exists>new. trace (snd (eval_loop n slp e input_fn name thr w)) = trace w @ new
     \<and> spaced thr (map fst (calls_of new))
     \<and> (calls_of new = [] \<or> fst (hd (calls_of new)) = clock w)
     \<and> length (calls_of new) \<le> n
     \<and> map snd (calls_of new) =
         replicate (length (calls_of new)) (Evaluate input_fn (eval_steps e) (eval_metrics e) name)"
proof (induction n arbitrary: w)
  case 0
  show ?case by simp
next
  case (Suc n)
  obtain r w1 where it: "eval_iteration slp e input_fn name thr w = (r, w1)"
    by (cases "eval_iteration slp e input_fn name thr w")
  from eval_iteration_trace [of slp e input_fn name thr w] it
  obtain rest where tr: "trace w1 = trace w @ (clock w, Call (Evaluate input_fn (eval_steps e) (eval_metrics e) name)) # rest"
    and nc: "calls_of rest = []" by auto
  show ?case
  proof (cases r)
    case (Inl x)
    with it tr nc show ?thesis by simp
  next
    case (Inr u)
    from eval_iteration_clock [OF assms, of e input_fn name thr w u] it Inr
    have ck: "clock w + thr \<le> clock w1" by simp
    from Suc.IH [of w1] obtain new where
      n1: "trace (snd (eval_loop n slp e input_fn name thr w1)) = trace w1 @ new"
      and n2: "spaced thr (map fst (calls_of new))"
      and n3: "calls_of new = [] \<or> fst (hd (calls_of new)) = clock w1"
      and n4: "length (calls_of new) \<le> n"
      and n5: "map snd (calls_of new) =
         replicate (length (calls_of new)) (Evaluate input_fn (eval_steps e) (eval_metrics e) name)"
      by blast
    let ?new = "(clock w, Call (Evaluate input_fn (eval_steps e) (eval_metrics e) name)) # rest @ new"
    have c: "calls_of ?new = (clock w, Evaluate input_fn (eval_steps e) (eval_metrics e) name) # calls_of new"
      using nc by (simp add: calls_of_append)
    have "trace (snd (eval_loop (Suc n) slp e input_fn name thr w)) = trace w @ ?new"
      using it Inr n1 tr by simp
    moreover have "spaced thr (map fst (calls_of ?new))"
      using n2 n3 ck unfolding c by (cases "calls_of new") (auto simp: spaced_Cons)
    moreover have "fst (hd (calls_of ?new)) = clock w" unfolding c by simp
    moreover have "length (calls_of ?new) \<le> Suc n" unfolding c using n4 by simp
    moreover have "map snd (calls_of ?new) =
         replicate (length (calls_of ?new)) (Evaluate input_fn (eval_steps e) (eval_metrics e) name)"
      unfolding c using n5 by simp
    ultimately show ?thesis by blast
  qed
qed

lemma private_continuous_eval_run:
  assumes "sleeps_long_enough slp"
  shows "\<exists>pre new. trace (snd (private_continuous_eval n slp e input_fn name d thr w)) = trace w @ pre @ new
     \<and> calls_of pre = []
     \<and> spaced thr (map fst (calls_of new))
     \<and> length (calls_of new) \<le> n
     \<and> map snd (calls_of new) =
         replicate (length (calls_of new)) (Evaluate input_fn (eval_steps e) (eval_metrics e) name)"
proof (cases "d = 0")
  case True
  from eval_loop_run [OF assms, of n e input_fn name thr w] obtain new where
    "trace (snd (eval_loop n slp e input_fn name thr w)) = trace w @ new"
    "spaced thr (map fst (calls_of new))" "length (calls_of new) \<le> n"
    "map snd (calls_of new) =
         replicate (length (calls_of new)) (Evaluate input_fn (eval_steps e) (eval_metrics e) name)"
    by blast
  with True have "trace (snd (private_continuous_eval n slp e input_fn name d thr w)) = trace w @ [] @ new
     \<and> calls_of [] = []
     \<and> spaced thr (map fst (calls_of new))
     \<and> length (calls_of new) \<le> n
     \<and> map snd (calls_of new) =
         replicate (length (calls_of new)) (Evaluate input_fn (eval_steps e) (eval_metrics e) name)"
    by (simp add: private_continuous_eval_def)
  then show ?thesis by blast
next
  case False
  let ?wl = "logging INFO ''Waiting %f secs before starting eval.'' [d] w"
  show ?thesis
  proof (cases "d < 0")
    case True
    with False have "trace (snd (private_continuous_eval n slp e input_fn name d thr w)) =
        trace w @ [(clock w, Log INFO ''Waiting %f secs before starting eval.'' [d])] @ []"
      by (simp add: private_continuous_eval_def time_sleep_def logging_simps)
    then show ?thesis by force
  next
    case nonneg: False
    let ?w1 = "snd (time_sleep slp d ?wl)"
    from nonneg have tr1: "trace ?w1 = trace w @ [(clock w, Log INFO ''Waiting %f secs before starting eval.'' [d]),
        (clock w, Sleep d)]"
      by (simp add: time_sleep_trace logging_simps)
    from eval_loop_run [OF assms, of n e input_fn name thr ?w1] obtain new where
      n1: "trace (snd (eval_loop n slp e input_fn name thr ?w1)) = trace ?w1 @ new"
      and n2: "spaced thr (map fst (calls_of new))" "length (calls_of new) \<le> n"
      "map snd (calls_of new) =
         replicate (length (calls_of new)) (Evaluate input_fn (eval_steps e) (eval_metrics e) name)"
      by blast
    have "private_continuous_eval n slp e input_fn name d thr w = eval_loop n slp e input_fn name thr ?w1"
      using False nonneg by (simp add: private_continuous_eval_def time_sleep_def)
    with n1 tr1 have "trace (snd (private_continuous_eval n slp e input_fn name d thr w)) =
       trace w @ [(clock w, Log INFO ''Waiting %f secs before starting eval.'' [d]), (clock w, Sleep d)] @ new"
      by simp
    moreover have "calls_of [(clock w, Log INFO ''Waiting %f secs before starting eval.'' [d]), (clock w, Sleep d)] = []"
      by simp
    ultimately show ?thesis using n2 by blast
  qed
qed

lemma example_experiment_simps:
  "estimator example_experiment = example_estimator"
  "train_input_fn example_experiment = ''train_input''"
  "eval_input_fn example_experiment = ''eval_input''"
  "eval_metrics example_experiment = None"
  "train_steps example_experiment = Some 1000"
  "eval_steps example_experiment = Some 100"
  "train_monitors example_experiment = None"
  "local_eval_frequency example_experiment = Some 5"
  by (simp_all add: example_experiment_def)

lemma eval_loop_extends:
  "\<exists>new. trace (snd (eval_loop n slp e input_fn name thr w)) = trace w @ new"
proof (induction n arbitrary: w)
  case 0
  show ?case by simp
next
  case (Suc n)
  obtain r w1 where it: "eval_iteration slp e input_fn name thr w = (r, w1)"
    by (cases "eval_iteration slp e input_fn name thr w")
  from eval_iteration_trace [of slp e input_fn name thr w] it
  obtain rest where tr: "trace w1 = trace w @ (clock w, Call (Evaluate input_fn (eval_steps e) (eval_metrics e) name)) # rest"
    by auto
  show ?case
  proof (cases r)
    case (Inl x)
    with it tr show ?thesis by simp
  next
    case (Inr u)
    from Suc.IH [of w1] obtain new where "trace (snd (eval_loop n slp e input_fn name thr w1)) = trace w1 @ new"
      by blast
    with it Inr tr show ?thesis by simp
  qed
qed

lemma eval_loop_first_call:
  "\<exists>rest. events_since w (snd (eval_loop (Suc n) slp e input_fn name thr w)) =
      (clock w, Call (Evaluate input_fn (eval_steps e) (eval_metrics e) name)) # rest"
proof -
  obtain r w1 where it: "eval_iteration slp e input_fn name thr w = (r, w1)"
    by (cases "eval_iteration slp e input_fn name thr w")
  from eval_iteration_trace [of slp e input_fn name thr w] it
  obtain rest where tr: "trace w1 = trace w @ (clock w, Call (Evaluate input_fn (eval_steps e) (eval_metrics e) name)) # rest"
    by auto
  show ?thesis
  proof (cases r)
    case (Inl x)
    with it tr show ?thesis by (simp add: events_since_def)
  next
    case (Inr u)
    from eval_loop_extends [of n slp e input_fn name thr w1] obtain new
      where "trace (snd (eval_loop n slp e input_fn name thr w1)) = trace w1 @ new"
      by blast
    with it Inr tr show ?thesis by (simp add: events_since_def)
  qed
qed

lemma train_unfold:
  "0 \<le> d \<Longrightarrow> train slp e d w =
     call_estimator e (Fit (train_input_fn e) (train_steps e) (train_monitors e))
       (if d = 0 then w
        else snd (time_sleep slp d (logging INFO ''Waiting %d secs before starting training.'' [d] w)))"
  by (simp add: train_def time_sleep_def)

lemma evaluate_unfold:
  "0 \<le> d \<Longrightarrow> evaluate slp e d w =
     call_estimator e (Evaluate (eval_input_fn e) (eval_steps e) (eval_metrics e) ''one_pass'')
       (if d = 0 then w
        else snd (time_sleep slp d (logging INFO ''Waiting %d secs before starting eval.'' [d] w)))"
  by (simp add: evaluate_def time_sleep_def)

subsection \<open>The single calls\<close>

text \<open>
  Claim C3. \<^verbatim>\<open>train\<close>, with no delay or with any delay that is not negative, calls the
  Estimator once: \<^verbatim>\<open>fit\<close> with the stored \<^verbatim>\<open>train_input_fn\<close> as input, the stored
  \<^verbatim>\<open>train_steps\<close> as \<^verbatim>\<open>max_steps\<close> and the stored \<^verbatim>\<open>train_monitors\<close> (the very list
  object, which the call leaves as it is) as monitors. What \<^verbatim>\<open>train\<close> returns or raises
  is what that call returned or raised.
\<close>

theorem train_calls_fit:
  assumes "0 \<le> delay_secs"
  shows "(let w1 = (if delay_secs = 0 then w
                    else snd (time_sleep slp delay_secs
                           (logging INFO ''Waiting %d secs before starting training.'' [delay_secs] w)));
              c = Fit (train_input_fn e) (train_steps e) (train_monitors e)
          in train slp e delay_secs w = call_estimator e c w1
           \<and> fst (train slp e delay_secs w) = result (estimator e w1 c)
           \<and> map snd (calls_of (events_since w (snd (train slp e delay_secs w)))) = [c]
           \<and> heap (snd (train slp e delay_secs w)) = heap w)"
  using assms
  by (simp add: Let_def train_unfold call_estimator_simps events_since_def time_sleep_trace
      time_sleep_heap logging_simps)

theorem train_calls_fit_witness:
  "train exact_sleep example_experiment 0 example_world =
     call_estimator example_experiment (Fit ''train_input'' (Some 1000) None) example_world
   \<and> fst (train exact_sleep example_experiment 0 example_world) = Inr (Ret 1)
   \<and> map snd (calls_of (events_since example_world (snd (train exact_sleep example_experiment 0 example_world))))
       = [Fit ''train_input'' (Some 1000) None]
   \<and> heap (snd (train exact_sleep example_experiment 0 example_world)) = heap example_world"
proof -
  have "result (example_estimator example_world (Fit ''train_input'' (Some 1000) None)) = Inr (Ret 1)"
    by (simp add: example_estimator_def example_world_def)
  with train_calls_fit [of 0 example_world exact_sleep example_experiment]
  show ?thesis
    by (clarsimp simp: Let_def example_experiment_simps)
qed

text \<open>
  Claim C4. \<^verbatim>\<open>evaluate\<close>, with no delay or with any delay that is not negative, calls
  the Estimator once: \<^verbatim>\<open>evaluate\<close> with the stored \<^verbatim>\<open>eval_input_fn\<close>, \<^verbatim>\<open>eval_steps\<close>
  and \<^verbatim>\<open>eval_metrics\<close> and with the name \<^verbatim>\<open>one_pass\<close>. What it returns or raises is
  what that call returned or raised.
\<close>

theorem evaluate_calls_evaluate:
  assumes "0 \<le> delay_secs"
  shows "(let w1 = (if delay_secs = 0 then w
                    else snd (time_sleep slp delay_secs
                           (logging INFO ''Waiting %d secs before starting eval.'' [delay_secs] w)));
              c = Evaluate (eval_input_fn e) (eval_steps e) (eval_metrics e) ''one_pass''
          in evaluate slp e delay_secs w = call_estimator e c w1
           \<and> fst (evaluate slp e delay_secs w) = result (estimator e w1 c)
           \<and> map snd (calls_of (events_since w (snd (evaluate slp e delay_secs w)))) = [c]
           \<and> heap (snd (evaluate slp e delay_secs w)) = heap w)"
  using assms
  by (simp add: Let_def evaluate_unfold call_estimator_simps events_since_def time_sleep_trace
      time_sleep_heap logging_simps)

theorem evaluate_calls_evaluate_witness:
  "evaluate exact_sleep example_experiment 0 (example_world\<lparr>clock := 100\<rparr>) =
     call_estimator example_experiment (Evaluate ''eval_input'' (Some 100) None ''one_pass'')
       (example_world\<lparr>clock := 100\<rparr>)
   \<and> fst (evaluate exact_sleep example_experiment 0 (example_world\<lparr>clock := 100\<rparr>)) = Inr (Ret 2)
   \<and> map snd (calls_of (events_since (example_world\<lparr>clock := 100\<rparr>)
         (snd (evaluate exact_sleep example_experiment 0 (example_world\<lparr>clock := 100\<rparr>)))))
       = [Evaluate ''eval_input'' (Some 100) None ''one_pass'']
   \<and> heap (snd (evaluate exact_sleep example_experiment 0 (example_world\<lparr>clock := 100\<rparr>))) = heap example_world"
proof -
  have "result (example_estimator (example_world\<lparr>clock := 100\<rparr>)
          (Evaluate ''eval_input'' (Some 100) None ''one_pass'')) = Inr (Ret 2)"
    by (simp add: example_estimator_def)
  with evaluate_calls_evaluate [of 0 "example_world\<lparr>clock := 100\<rparr>" exact_sleep example_experiment]
  show ?thesis
    by (clarsimp simp: Let_def example_experiment_simps)
qed

subsection \<open>The initial delay\<close>

lemma private_continuous_eval_unfold:
  "0 \<le> d \<Longrightarrow> private_continuous_eval n slp e input_fn name d thr w =
     eval_loop n slp e input_fn name thr
       (if d = 0 then w
        else snd (time_sleep slp d (logging INFO ''Waiting %f secs before starting eval.'' [d] w)))"
  by (simp add: private_continuous_eval_def time_sleep_def)

text \<open>
  Claim C8. On a platform whose sleeps last at least as long as asked, a positive
  \<open>delay_secs\<close> makes \<^verbatim>\<open>train\<close>, \<^verbatim>\<open>evaluate\<close> and \<^verbatim>\<open>_continuous_eval\<close> log the wait,
  sleep for \<open>delay_secs\<close> and only then call the Estimator, at a time at least
  \<open>delay_secs\<close> after the method was entered. With \<open>delay_secs = 0\<close> the first thing
  each of them does is the call of the Estimator, at the time the method was entered.
\<close>

theorem initial_delay:
  assumes "sleeps_long_enough slp"
  shows "(0 < d \<longrightarrow>
           (\<exists>t. clock w + d \<le> t
              \<and> events_since w (snd (train slp e d w)) =
                  [(clock w, Log INFO ''Waiting %d secs before starting training.'' [d]),
                   (clock w, Sleep d),
                   (t, Call (Fit (train_input_fn e) (train_steps e) (train_monitors e)))])
         \<and> (\<exists>t. clock w + d \<le> t
              \<and> events_since w (snd (evaluate slp e d w)) =
                  [(clock w, Log INFO ''Waiting %d secs before starting eval.'' [d]),
                   (clock w, Sleep d),
                   (t, Call (Evaluate (eval_input_fn e) (eval_steps e) (eval_metrics e) ''one_pass''))])
         \<and> (\<exists>t. clock w + d \<le> t
              \<and> take 3 (events_since w
                    (snd (private_continuous_eval (Suc n) slp e input_fn name d thr w))) =
                  [(clock w, Log INFO ''Waiting %f secs before starting eval.'' [d]),
                   (clock w, Sleep d),
                   (t, Call (Evaluate input_fn (eval_steps e) (eval_metrics e) name))]))
       \<and> events_since w (snd (train slp e 0 w)) =
           [(clock w, Call (Fit (train_input_fn e) (train_steps e) (train_monitors e)))]
       \<and> events_since w (snd (evaluate slp e 0 w)) =
           [(clock w, Call (Evaluate (eval_input_fn e) (eval_steps e) (eval_metrics e) ''one_pass''))]
       \<and> take 1 (events_since w (snd (private_continuous_eval (Suc n) slp e input_fn name 0 thr w))) =
           [(clock w, Call (Evaluate input_fn (eval_steps e) (eval_metrics e) name))]"
proof -
  have zero_train: "events_since w (snd (train slp e 0 w)) =
           [(clock w, Call (Fit (train_input_fn e) (train_steps e) (train_monitors e)))]"
    by (simp add: train_def events_since_def call_estimator_simps)
  have zero_eval: "events_since w (snd (evaluate slp e 0 w)) =
           [(clock w, Call (Evaluate (eval_input_fn e) (eval_steps e) (eval_metrics e) ''one_pass''))]"
    by (simp add: evaluate_def events_since_def call_estimator_simps)
  from eval_loop_first_call [of w n slp e input_fn name thr]
  have zero_cont: "take 1 (events_since w (snd (private_continuous_eval (Suc n) slp e input_fn name 0 thr w))) =
           [(clock w, Call (Evaluate input_fn (eval_steps e) (eval_metrics e) name))]"
    by (auto simp add: private_continuous_eval_def)
  have pos: "(\<exists>t. clock w + d \<le> t
              \<and> events_since w (snd (train slp e d w)) =
                  [(clock w, Log INFO ''Waiting %d secs before starting training.'' [d]),
                   (clock w, Sleep d),
                   (t, Call (Fit (train_input_fn e) (train_steps e) (train_monitors e)))])
         \<and> (\<exists>t. clock w + d \<le> t
              \<and> events_since w (snd (evaluate slp e d w)) =
                  [(clock w, Log INFO ''Waiting %d secs before starting eval.'' [d]),
                   (clock w, Sleep d),
                   (t, Call (Evaluate (eval_input_fn e) (eval_steps e) (eval_metrics e) ''one_pass''))])
         \<and> (\<exists>t. clock w + d \<le> t
              \<and> take 3 (events_since w
                    (snd (private_continuous_eval (Suc n) slp e input_fn name d thr w))) =
                  [(clock w, Log INFO ''Waiting %f secs before starting eval.'' [d]),
                   (clock w, Sleep d),
                   (t, Call (Evaluate input_fn (eval_steps e) (eval_metrics e) name))])"
    if d: "0 < d"
  proof -
    from d have d0: "0 \<le> d" "d \<noteq> 0" by simp_all
    let ?wt = "snd (time_sleep slp d (logging INFO ''Waiting %d secs before starting training.'' [d] w))"
    let ?we = "snd (time_sleep slp d (logging INFO ''Waiting %d secs before starting eval.'' [d] w))"
    let ?wc = "snd (time_sleep slp d (logging INFO ''Waiting %f secs before starting eval.'' [d] w))"
    have ct: "clock w + d \<le> clock ?wt"
      using time_sleep_clock [OF assms d0(1), of "logging INFO ''Waiting %d secs before starting training.'' [d] w"]
      by (simp add: logging_simps)
    have ce: "clock w + d \<le> clock ?we"
      using time_sleep_clock [OF assms d0(1), of "logging INFO ''Waiting %d secs before starting eval.'' [d] w"]
      by (simp add: logging_simps)
    have cc: "clock w + d \<le> clock ?wc"
      using time_sleep_clock [OF assms d0(1), of "logging INFO ''Waiting %f secs before starting eval.'' [d] w"]
      by (simp add: logging_simps)
    have "events_since w (snd (train slp e d w)) =
                  [(clock w, Log INFO ''Waiting %d secs before starting training.'' [d]),
                   (clock w, Sleep d),
                   (clock ?wt, Call (Fit (train_input_fn e) (train_steps e) (train_monitors e)))]"
      using d0 by (simp add: train_unfold events_since_def call_estimator_simps time_sleep_trace logging_simps)
    with ct have A: "\<exists>t. clock w + d \<le> t
              \<and> events_since w (snd (train slp e d w)) =
                  [(clock w, Log INFO ''Waiting %d secs before starting training.'' [d]),
                   (clock w, Sleep d),
                   (t, Call (Fit (train_input_fn e) (train_steps e) (train_monitors e)))]"
      by blast
    have "events_since w (snd (evaluate slp e d w)) =
                  [(clock w, Log INFO ''Waiting %d secs before starting eval.'' [d]),
                   (clock w, Sleep d),
                   (clock ?we, Call (Evaluate (eval_input_fn e) (eval_steps e) (eval_metrics e) ''one_pass''))]"
      using d0 by (simp add: evaluate_unfold events_since_def call_estimator_simps time_sleep_trace logging_simps)
    with ce have B: "\<exists>t. clock w + d \<le> t
              \<and> events_since w (snd (evaluate slp e d w)) =
                  [(clock w, Log INFO ''Waiting %d secs before starting eval.'' [d]),
                   (clock w, Sleep d),
                   (t, Call (Evaluate (eval_input_fn e) (eval_steps e) (eval_metrics e) ''one_pass''))]"
      by blast
    from eval_loop_first_call [of ?wc n slp e input_fn name thr] obtain rest where
      "events_since ?wc (snd (eval_loop (Suc n) slp e input_fn name thr ?wc)) =
        (clock ?wc, Call (Evaluate input_fn (eval_steps e) (eval_metrics e) name)) # rest"
      by blast
    moreover from eval_loop_extends [of "Suc n" slp e input_fn name thr ?wc] obtain new where
      "trace (snd (eval_loop (Suc n) slp e input_fn name thr ?wc)) = trace ?wc @ new"
      by blast
    ultimately have "trace (snd (eval_loop (Suc n) slp e input_fn name thr ?wc)) =
       trace ?wc @ (clock ?wc, Call (Evaluate input_fn (eval_steps e) (eval_metrics e) name)) # rest"
      by (simp add: events_since_def)
    then have "take 3 (events_since w
                    (snd (private_continuous_eval (Suc n) slp e input_fn name d thr w))) =
                  [(clock w, Log INFO ''Waiting %f secs before starting eval.'' [d]),
                   (clock w, Sleep d),
                   (clock ?wc, Call (Evaluate input_fn (eval_steps e) (eval_metrics e) name))]"
      using d0 by (simp add: private_continuous_eval_unfold events_since_def time_sleep_trace logging_simps)
    with cc have C: "\<exists>t. clock w + d \<le> t
              \<and> take 3 (events_since w
                    (snd (private_continuous_eval (Suc n) slp e input_fn name d thr w))) =
                  [(clock w, Log INFO ''Waiting %f secs before starting eval.'' [d]),
                   (clock w, Sleep d),
                   (t, Call (Evaluate input_fn (eval_steps e) (eval_metrics e) name))]"
      by blast
    from A B C show ?thesis by blast
  qed
  from pos zero_train zero_eval zero_cont show ?thesis by blast
qed

theorem initial_delay_witness:
  "sleeps_long_enough exact_sleep
   \<and> (\<exists>t. clock example_world + 30 \<le> t
        \<and> events_since example_world (snd (train exact_sleep example_experiment 30 example_world)) =
            [(clock example_world, Log INFO ''Waiting %d secs before starting training.'' [30]),
             (clock example_world, Sleep 30),
             (t, Call (Fit ''train_input'' (Some 1000) None))])
   \<and> (\<exists>t. clock example_world + 30 \<le> t
        \<and> events_since example_world (snd (evaluate exact_sleep example_experiment 30 example_world)) =
            [(clock example_world, Log INFO ''Waiting %d secs before starting eval.'' [30]),
             (clock example_world, Sleep 30),
             (t, Call (Evaluate ''eval_input'' (Some 100) None ''one_pass''))])
   \<and> (\<exists>t. clock example_world + 30 \<le> t
        \<and> take 3 (events_since example_world
              (snd (private_continuous_eval (Suc 0) exact_sleep example_experiment
                      ''eval_input'' ''continuous'' 30 60 example_world))) =
            [(clock example_world, Log INFO ''Waiting %f secs before starting eval.'' [30]),
             (clock example_world, Sleep 30),
             (t, Call (Evaluate ''eval_input'' (Some 100) None ''continuous''))])
   \<and> events_since example_world (snd (train exact_sleep example_experiment 0 example_world)) =
       [(clock example_world, Call (Fit ''train_input'' (Some 1000) None))]
   \<and> events_since example_world (snd (evaluate exact_sleep example_experiment 0 example_world)) =
       [(clock example_world, Call (Evaluate ''eval_input'' (Some 100) None ''one_pass''))]
   \<and> take 1 (events_since example_world
         (snd (private_continuous_eval (Suc 0) exact_sleep example_experiment
                 ''eval_input'' ''continuous'' 0 60 example_world))) =
       [(clock example_world, Call (Evaluate ''eval_input'' (Some 100) None ''continuous''))]"
proof -
  have h: "sleeps_long_enough exact_sleep"
    by (simp add: sleeps_long_enough_def exact_sleep_def)
  from initial_delay [OF h, of 30 example_world example_experiment 0 "''eval_input''" "''continuous''" 60] h
  show ?thesis
    by (simp add: example_experiment_simps)
qed

subsection \<open>The throttle of the continuous evaluation loop\<close>

lemma eval_loop_step:
  "fst (eval_iteration slp e input_fn name thr w) = Inr () \<Longrightarrow>
   eval_loop (Suc n) slp e input_fn name thr w =
     eval_loop n slp e input_fn name thr (snd (eval_iteration slp e input_fn name thr w))"
  by (cases "eval_iteration slp e input_fn name thr w") simp

lemma eval_loop_add:
  "eval_loop (k + m) slp e input_fn name thr w =
     (case eval_loop k slp e input_fn name thr w of
        (None, w') \<Rightarrow> eval_loop m slp e input_fn name thr w'
      | (Some x, w') \<Rightarrow> (Some x, w'))"
proof (induction k arbitrary: w)
  case 0
  show ?case by simp
next
  case (Suc k)
  obtain r w1 where it: "eval_iteration slp e input_fn name thr w = (r, w1)"
    by (cases "eval_iteration slp e input_fn name thr w")
  show ?case
  proof (cases r)
    case (Inl x)
    with it show ?thesis by simp
  next
    case (Inr u)
    with it Suc.IH [of w1] show ?thesis by simp
  qed
qed

lemma eval_loop_raises:
  assumes "result (estimator e w (Evaluate input_fn (eval_steps e) (eval_metrics e) name)) = Inl x"
    and "x \<noteq> NotFittedError"
  shows "eval_loop (Suc n) slp e input_fn name thr w =
     (Some x, snd (call_estimator e (Evaluate input_fn (eval_steps e) (eval_metrics e) name) w))"
  using assms by (simp add: eval_iteration_raises)

lemma eval_loop_raises_later:
  assumes "fst (eval_loop k slp e input_fn name thr w) = None"
    and "result (estimator e (snd (eval_loop k slp e input_fn name thr w))
           (Evaluate input_fn (eval_steps e) (eval_metrics e) name)) = Inl x"
    and "x \<noteq> NotFittedError"
  shows "eval_loop (k + Suc n) slp e input_fn name thr w =
     (Some x, snd (call_estimator e (Evaluate input_fn (eval_steps e) (eval_metrics e) name)
                     (snd (eval_loop k slp e input_fn name thr w))))"
proof -
  obtain r wk where lk: "eval_loop k slp e input_fn name thr w = (r, wk)"
    by (cases "eval_loop k slp e input_fn name thr w")
  with assms(1) have r: "r = None" by simp
  from assms(2) lk have "result (estimator e wk (Evaluate input_fn (eval_steps e) (eval_metrics e) name)) = Inl x"
    by simp
  then have "eval_loop (Suc n) slp e input_fn name thr wk =
     (Some x, snd (call_estimator e (Evaluate input_fn (eval_steps e) (eval_metrics e) name) wk))"
    using assms(3) by (rule eval_loop_raises)
  moreover have "eval_loop (k + Suc n) slp e input_fn name thr w = eval_loop (Suc n) slp e input_fn name thr wk"
    by (subst eval_loop_add) (simp add: lk r del: eval_loop.simps)
  ultimately show ?thesis using lk by simp
qed

lemma eval_loop_calls_step:
  assumes "fst (eval_iteration slp e input_fn name thr w) = Inr ()"
  shows "calls_of (events_since w (snd (eval_loop (Suc n) slp e input_fn name thr w))) =
     (clock w, Evaluate input_fn (eval_steps e) (eval_metrics e) name) #
     calls_of (events_since (snd (eval_iteration slp e input_fn name thr w))
        (snd (eval_loop n slp e input_fn name thr (snd (eval_iteration slp e input_fn name thr w)))))"
proof -
  let ?w' = "snd (eval_iteration slp e input_fn name thr w)"
  from eval_iteration_trace [of slp e input_fn name thr w] obtain rest
    where tr: "trace ?w' = trace w @ (clock w, Call (Evaluate input_fn (eval_steps e) (eval_metrics e) name)) # rest"
      and nc: "calls_of rest = []"
    by blast
  from eval_loop_extends [of n slp e input_fn name thr ?w'] obtain new
    where new: "trace (snd (eval_loop n slp e input_fn name thr ?w')) = trace ?w' @ new"
    by blast
  from new tr nc show ?thesis
    unfolding eval_loop_step [OF assms]
    by (simp add: events_since_def calls_of_append)
qed

lemma eval_loop_length:
  "fst (eval_loop n slp e input_fn name thr w) = None \<Longrightarrow>
   length (calls_of (events_since w (snd (eval_loop n slp e input_fn name thr w)))) = n"
proof (induction n arbitrary: w)
  case 0
  show ?case by (simp add: events_since_def)
next
  case (Suc n)
  obtain r w1 where it: "eval_iteration slp e input_fn name thr w = (r, w1)"
    by (cases "eval_iteration slp e input_fn name thr w")
  show ?case
  proof (cases r)
    case (Inl x)
    with it Suc.prems show ?thesis by simp
  next
    case (Inr u)
    with it have ok: "fst (eval_iteration slp e input_fn name thr w) = Inr ()" by simp
    from it Inr Suc.prems have "fst (eval_loop n slp e input_fn name thr w1) = None" by simp
    from Suc.IH [OF this] it show ?thesis
      by (simp add: eval_loop_calls_step [OF ok] del: eval_loop.simps)
  qed
qed

lemma private_continuous_eval_length:
  assumes "fst (private_continuous_eval n slp e input_fn name d thr w) = None"
  shows "length (calls_of (events_since w (snd (private_continuous_eval n slp e input_fn name d thr w)))) = n"
proof (cases "d < 0")
  case True
  with assms show ?thesis
    by (simp add: private_continuous_eval_def time_sleep_def)
next
  case False
  let ?w1 = "if d = 0 then w
        else snd (time_sleep slp d (logging INFO ''Waiting %f secs before starting eval.'' [d] w))"
  from False have un: "private_continuous_eval n slp e input_fn name d thr w =
     eval_loop n slp e input_fn name thr ?w1"
    by (simp add: private_continuous_eval_unfold)
  from False have "\<exists>pre. trace ?w1 = trace w @ pre \<and> calls_of pre = []"
    by (simp add: time_sleep_trace logging_simps)
  then obtain pre where p: "trace ?w1 = trace w @ pre" "calls_of pre = []"
    by blast
  from eval_loop_extends [of n slp e input_fn name thr ?w1] obtain new where
    new: "trace (snd (eval_loop n slp e input_fn name thr ?w1)) = trace ?w1 @ new"
    by blast
  from assms have "fst (eval_loop n slp e input_fn name thr ?w1) = None"
    unfolding un .
  from eval_loop_length [OF this] new p show ?thesis
    unfolding un by (simp add: events_since_def calls_of_append)
qed

lemma eval_iteration_returns:
  assumes "fst (eval_iteration slp e input_fn name thr w) = Inr ()"
  shows "eval_iteration slp e input_fn name thr w =
     throttle_wait slp thr (clock w)
       (if result (estimator e w (Evaluate input_fn (eval_steps e) (eval_metrics e) name)) = Inl NotFittedError
        then logging WARNING
               ''Estimator is not fitted yet, skipping evaluation. Increase 'delay_secs' to avoid this warning.''
               [] (snd (call_estimator e (Evaluate input_fn (eval_steps e) (eval_metrics e) name) w))
        else snd (call_estimator e (Evaluate input_fn (eval_steps e) (eval_metrics e) name) w))"
proof (cases "result (estimator e w (Evaluate input_fn (eval_steps e) (eval_metrics e) name))")
  case (Inl x)
  show ?thesis
  proof (cases "x = NotFittedError")
    case True
    with Inl show ?thesis by (simp add: eval_iteration_not_fitted)
  next
    case False
    with Inl assms show ?thesis by (simp add: eval_iteration_raises)
  qed
next
  case (Inr v)
  then show ?thesis by (simp add: eval_iteration_value)
qed

lemma throttle_wait_exact_clock:
  "clock w - start < thr \<Longrightarrow>
   clock (snd (throttle_wait slp thr start w)) =
     clock w + slp (logging INFO ''Waiting %f secs before starting next eval run.'' [thr - (clock w - start)] w)
                 (thr - (clock w - start))"
  by (simp add: throttle_wait_def Let_def time_sleep_def logging_simps)

text \<open>
  Claim C1. In every run of \<^verbatim>\<open>_continuous_eval\<close>, on a platform whose sleeps last at
  least as long as asked, the calls of the Estimator begin at least
  \<open>throttle_delay_secs\<close> apart; a run that is still going after \<open>n\<close> passes has made
  \<open>n\<close> calls, and the run is the loop started after the initial delay. A pass that goes on
  to the next one consists of the call, the warning when the Estimator was not fitted,
  and then, when the pass took less than the throttle window, the log and one sleep for
  exactly the rest of the window; when it took at least the window nothing is slept and
  the pass ends at the moment the Estimator came back. The loop goes on from the world the
  pass ended in, and the next call of the Estimator begins exactly at the end of the pass.
\<close>

theorem continuous_eval_throttle:
  assumes "sleeps_long_enough slp"
  shows "spaced thr (map fst (calls_of (events_since w
            (snd (private_continuous_eval n slp e input_fn name delay_secs thr w)))))
    \<and> (fst (private_continuous_eval n slp e input_fn name delay_secs thr w) = None \<longrightarrow>
         length (calls_of (events_since w
            (snd (private_continuous_eval n slp e input_fn name delay_secs thr w)))) = n)
    \<and> (0 \<le> delay_secs \<longrightarrow>
         private_continuous_eval n slp e input_fn name delay_secs thr w =
           eval_loop n slp e input_fn name thr
             (if delay_secs = 0 then w
              else snd (time_sleep slp delay_secs
                     (logging INFO ''Waiting %f secs before starting eval.'' [delay_secs] w))))
    \<and> (let c = Evaluate input_fn (eval_steps e) (eval_metrics e) name;
            d = elapsed (estimator e w c);
            w' = snd (eval_iteration slp e input_fn name thr w);
            wc = (if result (estimator e w c) = Inl NotFittedError
                  then logging WARNING
                         ''Estimator is not fitted yet, skipping evaluation. Increase 'delay_secs' to avoid this warning.''
                         [] (snd (call_estimator e c w))
                  else snd (call_estimator e c w))
        in fst (eval_iteration slp e input_fn name thr w) = Inr () \<longrightarrow>
             events_since w w' =
               (clock w, Call c) #
               (if result (estimator e w c) = Inl NotFittedError
                then [(clock w + d,
                       Log WARNING
                         ''Estimator is not fitted yet, skipping evaluation. Increase 'delay_secs' to avoid this warning.''
                         [])]
                else []) @
               (if d < thr
                then [(clock w + d, Log INFO ''Waiting %f secs before starting next eval run.'' [thr - d]),
                      (clock w + d, Sleep (thr - d))]
                else [])
           \<and> sleeps_of (events_since w w') = (if d < thr then [thr - d] else [])
           \<and> clock w + thr \<le> clock w'
           \<and> (thr \<le> d \<longrightarrow> clock w' = clock w + d)
           \<and> (d < thr \<longrightarrow>
                clock w' = clock w + d +
                  slp (logging INFO ''Waiting %f secs before starting next eval run.'' [thr - d] wc) (thr - d))
           \<and> eval_loop (Suc n) slp e input_fn name thr w = eval_loop n slp e input_fn name thr w'
           \<and> calls_of (events_since w (snd (eval_loop (Suc n) slp e input_fn name thr w))) =
               (clock w, c) # calls_of (events_since w' (snd (eval_loop n slp e input_fn name thr w')))
           \<and> take 2 (calls_of (events_since w (snd (eval_loop (Suc (Suc n)) slp e input_fn name thr w)))) =
               [(clock w, c), (clock w', c)])"
proof -
  let ?c = "Evaluate input_fn (eval_steps e) (eval_metrics e) name"
  let ?d = "elapsed (estimator e w ?c)"
  let ?it = "eval_iteration slp e input_fn name thr w"
  let ?w' = "snd ?it"
  let ?warn = "''Estimator is not fitted yet, skipping evaluation. Increase 'delay_secs' to avoid this warning.''"
  let ?wc = "if result (estimator e w ?c) = Inl NotFittedError
             then logging WARNING ?warn [] (snd (call_estimator e ?c w))
             else snd (call_estimator e ?c w)"
  from private_continuous_eval_run [OF assms, of n e input_fn name delay_secs thr w]
  obtain pre new where "trace (snd (private_continuous_eval n slp e input_fn name delay_secs thr w)) = trace w @ pre @ new"
    "calls_of pre = []" "spaced thr (map fst (calls_of new))" by blast
  then have A: "spaced thr (map fst (calls_of (events_since w
            (snd (private_continuous_eval n slp e input_fn name delay_secs thr w)))))"
    by (simp add: events_since_def calls_of_append)
  have L: "length (calls_of (events_since w
            (snd (private_continuous_eval n slp e input_fn name delay_secs thr w)))) = n"
    if "fst (private_continuous_eval n slp e input_fn name delay_secs thr w) = None"
    using that by (rule private_continuous_eval_length)
  have B: "events_since w ?w' =
               (clock w, Call ?c) #
               (if result (estimator e w ?c) = Inl NotFittedError
                then [(clock w + ?d, Log WARNING ?warn [])]
                else []) @
               (if ?d < thr
                then [(clock w + ?d, Log INFO ''Waiting %f secs before starting next eval run.'' [thr - ?d]),
                      (clock w + ?d, Sleep (thr - ?d))]
                else [])
           \<and> sleeps_of (events_since w ?w') = (if ?d < thr then [thr - ?d] else [])
           \<and> clock w + thr \<le> clock ?w'
           \<and> (thr \<le> ?d \<longrightarrow> clock ?w' = clock w + ?d)
           \<and> (?d < thr \<longrightarrow>
                clock ?w' = clock w + ?d +
                  slp (logging INFO ''Waiting %f secs before starting next eval run.'' [thr - ?d] ?wc) (thr - ?d))
           \<and> eval_loop (Suc n) slp e input_fn name thr w = eval_loop n slp e input_fn name thr ?w'
           \<and> calls_of (events_since w (snd (eval_loop (Suc n) slp e input_fn name thr w))) =
               (clock w, ?c) # calls_of (events_since ?w' (snd (eval_loop n slp e input_fn name thr ?w')))
           \<and> take 2 (calls_of (events_since w (snd (eval_loop (Suc (Suc n)) slp e input_fn name thr w)))) =
               [(clock w, ?c), (clock ?w', ?c)]"
    if ok: "fst ?it = Inr ()"
  proof -
    note eq = eval_iteration_returns [OF ok]
    have cwc: "clock ?wc = clock w + ?d"
      by (simp add: logging_simps call_estimator_simps)
    have twc: "trace ?wc = trace w @ (clock w, Call ?c) #
        (if result (estimator e w ?c) = Inl NotFittedError
         then [(clock w + ?d, Log WARNING ?warn [])] else [])"
      by (simp add: logging_simps call_estimator_simps)
    have ev: "events_since w ?w' =
               (clock w, Call ?c) #
               (if result (estimator e w ?c) = Inl NotFittedError
                then [(clock w + ?d, Log WARNING ?warn [])]
                else []) @
               (if ?d < thr
                then [(clock w + ?d, Log INFO ''Waiting %f secs before starting next eval run.'' [thr - ?d]),
                      (clock w + ?d, Sleep (thr - ?d))]
                else [])"
      unfolding eq events_since_def throttle_wait_trace twc cwc by simp
    have sl: "sleeps_of (events_since w ?w') = (if ?d < thr then [thr - ?d] else [])"
      unfolding ev by simp
    have ck: "clock w + thr \<le> clock ?w'"
      using eval_iteration_clock [OF assms ok] .
    have nowait: "clock ?w' = clock w + ?d" if "thr \<le> ?d"
    proof -
      from that have "\<not> clock ?wc - clock w < thr" unfolding cwc by simp
      then have "throttle_wait slp thr (clock w) ?wc = (Inr (), ?wc)"
        by (rule throttle_wait_no_wait)
      then show ?thesis unfolding eq using cwc by simp
    qed
    have wait: "clock ?w' = clock w + ?d +
        slp (logging INFO ''Waiting %f secs before starting next eval run.'' [thr - ?d] ?wc) (thr - ?d)"
      if "?d < thr"
    proof -
      from that have "clock ?wc - clock w < thr" unfolding cwc by simp
      from throttle_wait_exact_clock [OF this, of slp] show ?thesis
        unfolding eq cwc by simp
    qed
    have step: "eval_loop (Suc n) slp e input_fn name thr w = eval_loop n slp e input_fn name thr ?w'"
      using ok by (rule eval_loop_step)
    have cs: "calls_of (events_since w (snd (eval_loop (Suc n) slp e input_fn name thr w))) =
               (clock w, ?c) # calls_of (events_since ?w' (snd (eval_loop n slp e input_fn name thr ?w')))"
      using ok by (rule eval_loop_calls_step)
    from eval_loop_first_call [of ?w' n slp e input_fn name thr] obtain rest
      where "events_since ?w' (snd (eval_loop (Suc n) slp e input_fn name thr ?w')) = (clock ?w', Call ?c) # rest"
      by blast
    then have "take 2 (calls_of (events_since w (snd (eval_loop (Suc (Suc n)) slp e input_fn name thr w)))) =
               [(clock w, ?c), (clock ?w', ?c)]"
      by (simp add: eval_loop_calls_step [OF ok] del: eval_loop.simps)
    with ev sl ck nowait wait step cs show ?thesis by blast
  qed
  have U: "private_continuous_eval n slp e input_fn name delay_secs thr w =
           eval_loop n slp e input_fn name thr
             (if delay_secs = 0 then w
              else snd (time_sleep slp delay_secs
                     (logging INFO ''Waiting %f secs before starting eval.'' [delay_secs] w)))"
    if "0 \<le> delay_secs"
    using that by (rule private_continuous_eval_unfold)
  from A L U B show ?thesis
    unfolding Let_def by blast
qed

theorem continuous_eval_throttle_witness:
  "sleeps_long_enough exact_sleep
   \<and> calls_of (events_since example_world
        (snd (private_continuous_eval (Suc (Suc (Suc 0))) exact_sleep example_experiment
                ''eval_input'' ''continuous'' 5 60 example_world))) =
       [(5, Evaluate ''eval_input'' (Some 100) None ''continuous''),
        (65, Evaluate ''eval_input'' (Some 100) None ''continuous''),
        (135, Evaluate ''eval_input'' (Some 100) None ''continuous'')]
   \<and> spaced 60 (map fst (calls_of (events_since example_world
        (snd (private_continuous_eval (Suc (Suc (Suc 0))) exact_sleep example_experiment
                ''eval_input'' ''continuous'' 5 60 example_world)))))
   \<and> length (calls_of (events_since example_world
        (snd (private_continuous_eval (Suc (Suc (Suc 0))) exact_sleep example_experiment
                ''eval_input'' ''continuous'' 5 60 example_world)))) = Suc (Suc (Suc 0))
   \<and> events_since example_world
        (snd (eval_iteration exact_sleep example_experiment ''eval_input'' ''continuous'' 60 example_world)) =
       [(0, Call (Evaluate ''eval_input'' (Some 100) None ''continuous'')),
        (10, Log WARNING
           ''Estimator is not fitted yet, skipping evaluation. Increase 'delay_secs' to avoid this warning.''
           []),
        (10, Log INFO ''Waiting %f secs before starting next eval run.'' [50]),
        (10, Sleep 50)]
   \<and> clock (snd (eval_iteration exact_sleep example_experiment ''eval_input'' ''continuous'' 60 example_world)) = 60
   \<and> take 2 (calls_of (events_since example_world
        (snd (eval_loop (Suc (Suc 0)) exact_sleep example_experiment ''eval_input'' ''continuous'' 60
                example_world)))) =
       [(0, Evaluate ''eval_input'' (Some 100) None ''continuous''),
        (60, Evaluate ''eval_input'' (Some 100) None ''continuous'')]
   \<and> events_since (example_world\<lparr>clock := 100\<rparr>)
        (snd (eval_iteration exact_sleep example_experiment ''eval_input'' ''continuous'' 60
                (example_world\<lparr>clock := 100\<rparr>))) =
       [(100, Call (Evaluate ''eval_input'' (Some 100) None ''continuous''))]
   \<and> clock (snd (eval_iteration exact_sleep example_experiment ''eval_input'' ''continuous'' 60
                (example_world\<lparr>clock := 100\<rparr>))) = 170
   \<and> take 2 (calls_of (events_since (example_world\<lparr>clock := 100\<rparr>)
        (snd (eval_loop (Suc (Suc 0)) exact_sleep example_experiment ''eval_input'' ''continuous'' 60
                (example_world\<lparr>clock := 100\<rparr>))))) =
       [(100, Evaluate ''eval_input'' (Some 100) None ''continuous''),
        (170, Evaluate ''eval_input'' (Some 100) None ''continuous'')]"
proof -
  note defs = private_continuous_eval_def eval_iteration_def throttle_wait_def
    call_estimator_def time_sleep_def logging_def events_since_def Let_def
    example_experiment_def example_estimator_def example_world_def exact_sleep_def
  have h: "sleeps_long_enough exact_sleep"
    by (simp add: sleeps_long_enough_def exact_sleep_def)
  have c: "clock example_world = 0"
    by (simp add: example_world_def)
  have running: "fst (private_continuous_eval (Suc (Suc (Suc 0))) exact_sleep example_experiment
                ''eval_input'' ''continuous'' 5 60 example_world) = None"
    by (simp add: defs)
  have calls: "calls_of (events_since example_world
        (snd (private_continuous_eval (Suc (Suc (Suc 0))) exact_sleep example_experiment
                ''eval_input'' ''continuous'' 5 60 example_world))) =
       [(5, Evaluate ''eval_input'' (Some 100) None ''continuous''),
        (65, Evaluate ''eval_input'' (Some 100) None ''continuous''),
        (135, Evaluate ''eval_input'' (Some 100) None ''continuous'')]"
    by (simp add: defs)
  have ok1: "fst (eval_iteration exact_sleep example_experiment ''eval_input'' ''continuous'' 60 example_world) = Inr ()"
    by (simp add: defs)
  have ok2: "fst (eval_iteration exact_sleep example_experiment ''eval_input'' ''continuous'' 60
      (example_world\<lparr>clock := 100\<rparr>)) = Inr ()"
    by (simp add: defs)
  have run: "spaced 60 (map fst (calls_of (events_since example_world
        (snd (private_continuous_eval (Suc (Suc (Suc 0))) exact_sleep example_experiment
                ''eval_input'' ''continuous'' 5 60 example_world)))))
   \<and> length (calls_of (events_since example_world
        (snd (private_continuous_eval (Suc (Suc (Suc 0))) exact_sleep example_experiment
                ''eval_input'' ''continuous'' 5 60 example_world)))) = Suc (Suc (Suc 0))"
    using continuous_eval_throttle [OF h, where thr = 60 and w = example_world
        and n = "Suc (Suc (Suc 0))" and e = example_experiment and input_fn = "''eval_input''"
        and name = "''continuous''" and delay_secs = 5] running
    by blast
  have pass1: "events_since example_world
        (snd (eval_iteration exact_sleep example_experiment ''eval_input'' ''continuous'' 60 example_world)) =
       [(0, Call (Evaluate ''eval_input'' (Some 100) None ''continuous'')),
        (10, Log WARNING
           ''Estimator is not fitted yet, skipping evaluation. Increase 'delay_secs' to avoid this warning.''
           []),
        (10, Log INFO ''Waiting %f secs before starting next eval run.'' [50]),
        (10, Sleep 50)]
   \<and> clock (snd (eval_iteration exact_sleep example_experiment ''eval_input'' ''continuous'' 60 example_world)) = 60
   \<and> take 2 (calls_of (events_since example_world
        (snd (eval_loop (Suc (Suc 0)) exact_sleep example_experiment ''eval_input'' ''continuous'' 60
                example_world)))) =
       [(0, Evaluate ''eval_input'' (Some 100) None ''continuous''),
        (60, Evaluate ''eval_input'' (Some 100) None ''continuous'')]"
    using continuous_eval_throttle [OF h, where thr = 60 and w = example_world
        and n = 0 and e = example_experiment and input_fn = "''eval_input''"
        and name = "''continuous''" and delay_secs = 0] ok1
    by (clarsimp simp: Let_def example_experiment_simps example_estimator_def c exact_sleep_def
        simp del: eval_loop.simps)
  have pass2: "events_since (example_world\<lparr>clock := 100\<rparr>)
        (snd (eval_iteration exact_sleep example_experiment ''eval_input'' ''continuous'' 60
                (example_world\<lparr>clock := 100\<rparr>))) =
       [(100, Call (Evaluate ''eval_input'' (Some 100) None ''continuous''))]
   \<and> clock (snd (eval_iteration exact_sleep example_experiment ''eval_input'' ''continuous'' 60
                (example_world\<lparr>clock := 100\<rparr>))) = 170
   \<and> take 2 (calls_of (events_since (example_world\<lparr>clock := 100\<rparr>)
        (snd (eval_loop (Suc (Suc 0)) exact_sleep example_experiment ''eval_input'' ''continuous'' 60
                (example_world\<lparr>clock := 100\<rparr>))))) =
       [(100, Evaluate ''eval_input'' (Some 100) None ''continuous''),
        (170, Evaluate ''eval_input'' (Some 100) None ''continuous'')]"
    using continuous_eval_throttle [OF h, where thr = 60 and w = "example_world\<lparr>clock := 100\<rparr>"
        and n = 0 and e = example_experiment and input_fn = "''eval_input''"
        and name = "''continuous''" and delay_secs = 0] ok2
    by (clarsimp simp: Let_def example_experiment_simps example_estimator_def exact_sleep_def
        simp del: eval_loop.simps)
  from h calls run pass1 pass2 show ?thesis by blast
qed

subsection \<open>Exceptions\<close>

lemma local_run_monitors_estimator:
  "estimator (fst (local_run_monitors e w)) = estimator e"
  by (simp add: local_run_monitors_def Let_def split: prod.splits option.splits)

lemma local_run_unfold:
  "local_run slp e w =
     (let e1 = fst (local_run_monitors e w); w1 = snd (local_run_monitors e w);
          cF = Fit (train_input_fn e1) (train_steps e1) (train_monitors e1);
          cE = Evaluate (eval_input_fn e1) (eval_steps e1) (eval_metrics e1) ''one_pass''
      in case result (estimator e1 w1 cF) of
           Inl x \<Rightarrow> (Inl x, e1, snd (call_estimator e1 cF w1))
         | Inr v \<Rightarrow> (result (estimator e1 (snd (call_estimator e1 cF w1)) cE), e1,
                     snd (call_estimator e1 cE (snd (call_estimator e1 cF w1)))))"
  by (simp add: local_run_def train_def evaluate_def call_estimator_def Let_def
      split: prod.splits sum.splits)

lemma local_run_monitors_world:
  "clock (snd (local_run_monitors e w)) = clock w"
  "trace (snd (local_run_monitors e w)) = trace w"
  by (simp_all add: local_run_monitors_def new_list_def Let_def split: prod.splits option.splits)

lemma local_run_monitors_fields:
  "train_input_fn (fst (local_run_monitors e w)) = train_input_fn e"
  "eval_input_fn (fst (local_run_monitors e w)) = eval_input_fn e"
  "eval_metrics (fst (local_run_monitors e w)) = eval_metrics e"
  "train_steps (fst (local_run_monitors e w)) = train_steps e"
  "eval_steps (fst (local_run_monitors e w)) = eval_steps e"
  "local_eval_frequency (fst (local_run_monitors e w)) = local_eval_frequency e"
  by (simp_all add: local_run_monitors_def Let_def split: prod.splits option.splits)

lemma eval_iteration_never_not_fitted:
  "fst (eval_iteration slp e input_fn name thr w) \<noteq> Inl NotFittedError"
proof (cases "result (estimator e w (Evaluate input_fn (eval_steps e) (eval_metrics e) name))")
  case (Inl x)
  show ?thesis
  proof (cases "x = NotFittedError")
    case True
    with Inl show ?thesis
      by (simp add: eval_iteration_not_fitted throttle_wait_fst)
  next
    case False
    with Inl show ?thesis
      by (simp add: eval_iteration_raises)
  qed
next
  case (Inr v)
  then show ?thesis
    by (simp add: eval_iteration_value throttle_wait_fst)
qed

lemma eval_loop_never_not_fitted:
  "fst (eval_loop n slp e input_fn name thr w) \<noteq> Some NotFittedError"
proof (induction n arbitrary: w)
  case 0
  show ?case by simp
next
  case (Suc n)
  obtain r w1 where it: "eval_iteration slp e input_fn name thr w = (r, w1)"
    by (cases "eval_iteration slp e input_fn name thr w")
  show ?case
  proof (cases r)
    case (Inl x)
    with it eval_iteration_never_not_fitted [of slp e input_fn name thr w]
    show ?thesis by simp
  next
    case (Inr u)
    with it Suc.IH [of w1] show ?thesis by simp
  qed
qed

text \<open>
  Claim C2. In a pass of the loop of \<^verbatim>\<open>_continuous_eval\<close>, a NotFittedError of the
  Estimator is answered by a warning in the log and the loop goes on with the next pass;
  any other exception of the Estimator leaves the loop, unchanged and with nothing done
  after the call. In \<^verbatim>\<open>train\<close> and \<^verbatim>\<open>evaluate\<close> every exception of the Estimator,
  NotFittedError too, reaches the caller unchanged, and so it does in \<^verbatim>\<open>local_run\<close>,
  whether it comes from \<^verbatim>\<open>fit\<close> (then \<^verbatim>\<open>evaluate\<close> is not called) or from
  \<^verbatim>\<open>evaluate\<close>. However long the loop is followed, it never ends with NotFittedError.
  All this holds of every pass of a run, not of the first only: a pass in which the
  Estimator answers or is not fitted hands over to the next pass, and when \<open>k\<close> passes
  have gone through and the Estimator then raises another exception, the loop, and
  \<^verbatim>\<open>_continuous_eval\<close> with any delay that is not negative, end with that exception and
  with nothing done after the call.
\<close>

theorem estimator_exceptions:
  "(result (estimator e w (Evaluate input_fn (eval_steps e) (eval_metrics e) name)) = Inl NotFittedError \<longrightarrow>
      fst (eval_iteration slp e input_fn name thr w) = Inr ()
    \<and> take 2 (events_since w (snd (eval_iteration slp e input_fn name thr w))) =
        [(clock w, Call (Evaluate input_fn (eval_steps e) (eval_metrics e) name)),
         (clock w + elapsed (estimator e w (Evaluate input_fn (eval_steps e) (eval_metrics e) name)),
          Log WARNING
            ''Estimator is not fitted yet, skipping evaluation. Increase 'delay_secs' to avoid this warning.''
            [])]
    \<and> eval_loop (Suc n) slp e input_fn name thr w =
        eval_loop n slp e input_fn name thr (snd (eval_iteration slp e input_fn name thr w)))
   \<and> (result (estimator e w (Evaluate input_fn (eval_steps e) (eval_metrics e) name)) = Inl x
        \<and> x \<noteq> NotFittedError \<longrightarrow>
      eval_loop (Suc n) slp e input_fn name thr w =
        (Some x, snd (call_estimator e (Evaluate input_fn (eval_steps e) (eval_metrics e) name) w))
    \<and> private_continuous_eval (Suc n) slp e input_fn name 0 thr w =
        (Some x, snd (call_estimator e (Evaluate input_fn (eval_steps e) (eval_metrics e) name) w)))
   \<and> (let wt = (if d = 0 then w
                 else snd (time_sleep slp d
                        (logging INFO ''Waiting %d secs before starting training.'' [d] w)));
           cF = Fit (train_input_fn e) (train_steps e) (train_monitors e)
       in 0 \<le> d \<and> result (estimator e wt cF) = Inl x \<longrightarrow>
            train slp e d w = (Inl x, snd (call_estimator e cF wt)))
   \<and> (let we = (if d = 0 then w
                 else snd (time_sleep slp d
                        (logging INFO ''Waiting %d secs before starting eval.'' [d] w)));
           cE = Evaluate (eval_input_fn e) (eval_steps e) (eval_metrics e) ''one_pass''
       in 0 \<le> d \<and> result (estimator e we cE) = Inl x \<longrightarrow>
            evaluate slp e d w = (Inl x, snd (call_estimator e cE we)))
   \<and> (let e1 = fst (local_run_monitors e w); w1 = snd (local_run_monitors e w);
           cF = Fit (train_input_fn e1) (train_steps e1) (train_monitors e1);
           cE = Evaluate (eval_input_fn e1) (eval_steps e1) (eval_metrics e1) ''one_pass'';
           w2 = snd (call_estimator e1 cF w1)
       in (result (estimator e w1 cF) = Inl x \<longrightarrow>
             fst (local_run slp e w) = Inl x
           \<and> events_since w1 (snd (snd (local_run slp e w))) = [(clock w1, Call cF)])
        \<and> (result (estimator e w1 cF) = Inr v \<and> result (estimator e w2 cE) = Inl x \<longrightarrow>
             fst (local_run slp e w) = Inl x
           \<and> events_since w1 (snd (snd (local_run slp e w))) = [(clock w1, Call cF), (clock w2, Call cE)]))
   \<and> fst (eval_loop n slp e input_fn name thr w) \<noteq> Some NotFittedError
   \<and> (result (estimator e w (Evaluate input_fn (eval_steps e) (eval_metrics e) name)) = Inr v \<longrightarrow>
        fst (eval_iteration slp e input_fn name thr w) = Inr ()
      \<and> eval_loop (Suc n) slp e input_fn name thr w =
          eval_loop n slp e input_fn name thr (snd (eval_iteration slp e input_fn name thr w)))
   \<and> (let c = Evaluate input_fn (eval_steps e) (eval_metrics e) name;
           wk = snd (eval_loop k slp e input_fn name thr w)
       in (fst (eval_loop k slp e input_fn name thr w) = None
             \<and> result (estimator e wk c) = Inl x \<and> x \<noteq> NotFittedError \<longrightarrow>
           eval_loop (k + Suc n) slp e input_fn name thr w = (Some x, snd (call_estimator e c wk)))
        \<and> (fst (eval_loop k slp e input_fn name thr w) = None
             \<and> (result (estimator e wk c) = Inl NotFittedError \<or> result (estimator e wk c) = Inr v) \<longrightarrow>
           eval_loop (k + Suc n) slp e input_fn name thr w =
             eval_loop n slp e input_fn name thr (snd (eval_iteration slp e input_fn name thr wk))))
   \<and> (let c = Evaluate input_fn (eval_steps e) (eval_metrics e) name;
           wk = snd (private_continuous_eval k slp e input_fn name d thr w)
       in 0 \<le> d \<and> fst (private_continuous_eval k slp e input_fn name d thr w) = None
            \<and> result (estimator e wk c) = Inl x \<and> x \<noteq> NotFittedError \<longrightarrow>
          private_continuous_eval (k + Suc n) slp e input_fn name d thr w =
            (Some x, snd (call_estimator e c wk)))"
proof -
  let ?c = "Evaluate input_fn (eval_steps e) (eval_metrics e) name"
  have A: "fst (eval_iteration slp e input_fn name thr w) = Inr ()
    \<and> take 2 (events_since w (snd (eval_iteration slp e input_fn name thr w))) =
        [(clock w, Call ?c),
         (clock w + elapsed (estimator e w ?c),
          Log WARNING
            ''Estimator is not fitted yet, skipping evaluation. Increase 'delay_secs' to avoid this warning.''
            [])]
    \<and> eval_loop (Suc n) slp e input_fn name thr w =
        eval_loop n slp e input_fn name thr (snd (eval_iteration slp e input_fn name thr w))"
    if nf: "result (estimator e w ?c) = Inl NotFittedError"
  proof -
    have f: "fst (eval_iteration slp e input_fn name thr w) = Inr ()"
      by (simp add: eval_iteration_not_fitted [OF nf] throttle_wait_fst)
    have "take 2 (events_since w (snd (eval_iteration slp e input_fn name thr w))) =
        [(clock w, Call ?c),
         (clock w + elapsed (estimator e w ?c),
          Log WARNING
            ''Estimator is not fitted yet, skipping evaluation. Increase 'delay_secs' to avoid this warning.''
            [])]"
      by (simp add: eval_iteration_not_fitted [OF nf] events_since_def throttle_wait_trace
          logging_simps call_estimator_simps)
    moreover from f have "eval_loop (Suc n) slp e input_fn name thr w =
        eval_loop n slp e input_fn name thr (snd (eval_iteration slp e input_fn name thr w))"
      by (cases "eval_iteration slp e input_fn name thr w") simp
    ultimately show ?thesis using f by blast
  qed
  have B: "eval_loop (Suc n) slp e input_fn name thr w = (Some x, snd (call_estimator e ?c w))
    \<and> private_continuous_eval (Suc n) slp e input_fn name 0 thr w = (Some x, snd (call_estimator e ?c w))"
    if "result (estimator e w ?c) = Inl x \<and> x \<noteq> NotFittedError"
    using that by (simp add: eval_iteration_raises private_continuous_eval_def)
  have C: "(let wt = (if d = 0 then w
                 else snd (time_sleep slp d
                        (logging INFO ''Waiting %d secs before starting training.'' [d] w)));
           cF = Fit (train_input_fn e) (train_steps e) (train_monitors e)
       in 0 \<le> d \<and> result (estimator e wt cF) = Inl x \<longrightarrow>
            train slp e d w = (Inl x, snd (call_estimator e cF wt)))"
    by (simp add: Let_def train_unfold) (simp add: call_estimator_def Let_def)
  have D: "(let we = (if d = 0 then w
                 else snd (time_sleep slp d
                        (logging INFO ''Waiting %d secs before starting eval.'' [d] w)));
           cE = Evaluate (eval_input_fn e) (eval_steps e) (eval_metrics e) ''one_pass''
       in 0 \<le> d \<and> result (estimator e we cE) = Inl x \<longrightarrow>
            evaluate slp e d w = (Inl x, snd (call_estimator e cE we)))"
    by (simp add: Let_def evaluate_unfold) (simp add: call_estimator_def Let_def)
  have E: "(let e1 = fst (local_run_monitors e w); w1 = snd (local_run_monitors e w);
           cF = Fit (train_input_fn e1) (train_steps e1) (train_monitors e1);
           cE = Evaluate (eval_input_fn e1) (eval_steps e1) (eval_metrics e1) ''one_pass'';
           w2 = snd (call_estimator e1 cF w1)
       in (result (estimator e w1 cF) = Inl x \<longrightarrow>
             fst (local_run slp e w) = Inl x
           \<and> events_since w1 (snd (snd (local_run slp e w))) = [(clock w1, Call cF)])
        \<and> (result (estimator e w1 cF) = Inr v \<and> result (estimator e w2 cE) = Inl x \<longrightarrow>
             fst (local_run slp e w) = Inl x
           \<and> events_since w1 (snd (snd (local_run slp e w))) = [(clock w1, Call cF), (clock w2, Call cE)]))"
    by (simp add: Let_def local_run_unfold local_run_monitors_estimator events_since_def
        call_estimator_simps)
  have F: "fst (eval_loop n slp e input_fn name thr w) \<noteq> Some NotFittedError"
    by (rule eval_loop_never_not_fitted)
  have G: "fst (eval_iteration slp e input_fn name thr w) = Inr ()
      \<and> eval_loop (Suc n) slp e input_fn name thr w =
          eval_loop n slp e input_fn name thr (snd (eval_iteration slp e input_fn name thr w))"
    if v: "result (estimator e w ?c) = Inr v"
  proof -
    have "fst (eval_iteration slp e input_fn name thr w) = Inr ()"
      by (simp add: eval_iteration_value [OF v] throttle_wait_fst)
    then show ?thesis by (simp add: eval_loop_step del: eval_loop.simps)
  qed
  let ?wk = "snd (eval_loop k slp e input_fn name thr w)"
  have H1: "eval_loop (k + Suc n) slp e input_fn name thr w = (Some x, snd (call_estimator e ?c ?wk))"
    if "fst (eval_loop k slp e input_fn name thr w) = None
          \<and> result (estimator e ?wk ?c) = Inl x \<and> x \<noteq> NotFittedError"
    using that eval_loop_raises_later [of k slp e input_fn name thr w x n] by blast
  have H2: "eval_loop (k + Suc n) slp e input_fn name thr w =
             eval_loop n slp e input_fn name thr (snd (eval_iteration slp e input_fn name thr ?wk))"
    if h: "fst (eval_loop k slp e input_fn name thr w) = None
          \<and> (result (estimator e ?wk ?c) = Inl NotFittedError \<or> result (estimator e ?wk ?c) = Inr v)"
  proof -
    from h have "fst (eval_iteration slp e input_fn name thr ?wk) = Inr ()"
      by (auto simp add: eval_iteration_not_fitted eval_iteration_value throttle_wait_fst)
    then have "eval_loop (Suc n) slp e input_fn name thr ?wk =
        eval_loop n slp e input_fn name thr (snd (eval_iteration slp e input_fn name thr ?wk))"
      by (rule eval_loop_step)
    moreover from h have "eval_loop (k + Suc n) slp e input_fn name thr w =
        eval_loop (Suc n) slp e input_fn name thr ?wk"
      by (subst eval_loop_add) (simp add: split_beta del: eval_loop.simps)
    ultimately show ?thesis by simp
  qed
  let ?wd = "if d = 0 then w
        else snd (time_sleep slp d (logging INFO ''Waiting %f secs before starting eval.'' [d] w))"
  let ?wp = "snd (private_continuous_eval k slp e input_fn name d thr w)"
  have I: "private_continuous_eval (k + Suc n) slp e input_fn name d thr w =
            (Some x, snd (call_estimator e ?c ?wp))"
    if h: "0 \<le> d \<and> fst (private_continuous_eval k slp e input_fn name d thr w) = None
            \<and> result (estimator e ?wp ?c) = Inl x \<and> x \<noteq> NotFittedError"
  proof -
    from h have d: "0 \<le> d" by simp
    note un = private_continuous_eval_unfold [OF d]
    from h eval_loop_raises_later [of k slp e input_fn name thr ?wd x n]
    show ?thesis unfolding un by blast
  qed
  from A B C D E F G H1 H2 I show ?thesis
    unfolding Let_def by blast
qed

theorem estimator_exceptions_witness:
  "fst (eval_iteration exact_sleep example_experiment ''eval_input'' ''continuous'' 60 example_world) = Inr ()
   \<and> eval_loop (Suc 0) exact_sleep example_experiment ''eval_input'' ''continuous'' 60 example_world =
       eval_loop 0 exact_sleep example_experiment ''eval_input'' ''continuous'' 60
         (snd (eval_iteration exact_sleep example_experiment ''eval_input'' ''continuous'' 60 example_world))
   \<and> fst (evaluate exact_sleep example_experiment 0 example_world) = Inl NotFittedError
   \<and> fst (eval_loop (Suc 0) exact_sleep example_experiment ''eval_input'' ''continuous'' 60
            (example_world\<lparr>clock := 300\<rparr>)) = Some (OtherError ''checkpoint unreadable'')
   \<and> fst (train exact_sleep example_experiment 0 (example_world\<lparr>clock := 300\<rparr>)) =
       Inl (OtherError ''out of memory'')
   \<and> fst (local_run exact_sleep example_experiment (example_world\<lparr>clock := 300\<rparr>)) =
       Inl (OtherError ''out of memory'')
   \<and> fst (local_run exact_sleep example_experiment (example_world\<lparr>clock := 250\<rparr>)) =
       Inl (OtherError ''checkpoint unreadable'')
   \<and> fst (eval_loop (Suc (Suc 0)) exact_sleep example_experiment ''eval_input'' ''continuous'' 60
            (example_world\<lparr>clock := 200\<rparr>)) = None
   \<and> fst (eval_loop (Suc (Suc 0) + Suc 0) exact_sleep example_experiment ''eval_input'' ''continuous'' 60
            (example_world\<lparr>clock := 200\<rparr>)) = Some (OtherError ''checkpoint unreadable'')
   \<and> fst (private_continuous_eval (Suc (Suc 0)) exact_sleep example_experiment ''eval_input''
            ''continuous'' 5 60 (example_world\<lparr>clock := 200\<rparr>)) = None
   \<and> fst (private_continuous_eval (Suc (Suc 0) + Suc 0) exact_sleep example_experiment ''eval_input''
            ''continuous'' 5 60 (example_world\<lparr>clock := 200\<rparr>)) =
       Some (OtherError ''checkpoint unreadable'')"
proof -
  have c: "clock example_world = 0"
    by (simp add: example_world_def)
  note ev = Let_def example_experiment_simps example_estimator_def c
    local_run_monitors_world local_run_monitors_estimator call_estimator_simps
  have A: "fst (eval_iteration exact_sleep example_experiment ''eval_input'' ''continuous'' 60 example_world) = Inr ()
   \<and> eval_loop (Suc 0) exact_sleep example_experiment ''eval_input'' ''continuous'' 60 example_world =
       eval_loop 0 exact_sleep example_experiment ''eval_input'' ''continuous'' 60
         (snd (eval_iteration exact_sleep example_experiment ''eval_input'' ''continuous'' 60 example_world))
   \<and> fst (evaluate exact_sleep example_experiment 0 example_world) = Inl NotFittedError"
    using estimator_exceptions [where k = 0 and e = example_experiment and w = example_world
        and input_fn = "''eval_input''" and name = "''continuous''" and x = NotFittedError
        and slp = exact_sleep and thr = 60 and n = 0 and d = 0 and v = "Ret 1"]
    by (simp add: ev)
  have B: "fst (eval_loop (Suc 0) exact_sleep example_experiment ''eval_input'' ''continuous'' 60
            (example_world\<lparr>clock := 300\<rparr>)) = Some (OtherError ''checkpoint unreadable'')"
    using estimator_exceptions [where k = 0 and e = example_experiment and w = "example_world\<lparr>clock := 300\<rparr>"
        and input_fn = "''eval_input''" and name = "''continuous''"
        and x = "OtherError ''checkpoint unreadable''"
        and slp = exact_sleep and thr = 60 and n = 0 and d = 0 and v = "Ret 1"]
    by (simp add: ev)
  have C: "fst (train exact_sleep example_experiment 0 (example_world\<lparr>clock := 300\<rparr>)) =
       Inl (OtherError ''out of memory'')
   \<and> fst (local_run exact_sleep example_experiment (example_world\<lparr>clock := 300\<rparr>)) =
       Inl (OtherError ''out of memory'')"
    using estimator_exceptions [where k = 0 and e = example_experiment and w = "example_world\<lparr>clock := 300\<rparr>"
        and input_fn = "''eval_input''" and name = "''continuous''"
        and x = "OtherError ''out of memory''"
        and slp = exact_sleep and thr = 60 and n = 0 and d = 0 and v = "Ret 1"]
    by (simp add: ev)
  have D: "fst (local_run exact_sleep example_experiment (example_world\<lparr>clock := 250\<rparr>)) =
       Inl (OtherError ''checkpoint unreadable'')"
    using estimator_exceptions [where k = 0 and e = example_experiment and w = "example_world\<lparr>clock := 250\<rparr>"
        and input_fn = "''eval_input''" and name = "''continuous''"
        and x = "OtherError ''checkpoint unreadable''"
        and slp = exact_sleep and thr = 60 and n = 0 and d = 0 and v = "Ret 1"]
    by (simp add: ev)
  note defs = private_continuous_eval_def eval_iteration_def throttle_wait_def
    call_estimator_def time_sleep_def logging_def Let_def
    example_experiment_def example_estimator_def example_world_def exact_sleep_def
  have run: "fst (eval_loop (Suc (Suc 0)) exact_sleep example_experiment ''eval_input'' ''continuous'' 60
            (example_world\<lparr>clock := 200\<rparr>)) = None"
    by (simp add: defs)
  have raised: "result (estimator example_experiment
      (snd (eval_loop (Suc (Suc 0)) exact_sleep example_experiment ''eval_input'' ''continuous'' 60
            (example_world\<lparr>clock := 200\<rparr>)))
      (Evaluate ''eval_input'' (eval_steps example_experiment) (eval_metrics example_experiment)
         ''continuous'')) = Inl (OtherError ''checkpoint unreadable'')"
    by (simp add: defs)
  have prun: "fst (private_continuous_eval (Suc (Suc 0)) exact_sleep example_experiment ''eval_input''
            ''continuous'' 5 60 (example_world\<lparr>clock := 200\<rparr>)) = None"
    by (simp add: defs)
  have praised: "result (estimator example_experiment
      (snd (private_continuous_eval (Suc (Suc 0)) exact_sleep example_experiment ''eval_input''
            ''continuous'' 5 60 (example_world\<lparr>clock := 200\<rparr>)))
      (Evaluate ''eval_input'' (eval_steps example_experiment) (eval_metrics example_experiment)
         ''continuous'')) = Inl (OtherError ''checkpoint unreadable'')"
    by (simp add: defs)
  note later = estimator_exceptions [where k = "Suc (Suc 0)" and e = example_experiment
        and w = "example_world\<lparr>clock := 200\<rparr>"
        and input_fn = "''eval_input''" and name = "''continuous''"
        and x = "OtherError ''checkpoint unreadable''"
        and slp = exact_sleep and thr = 60 and n = 0 and d = 5 and v = "Ret 2", unfolded Let_def]
  have E: "fst (eval_loop (Suc (Suc 0) + Suc 0) exact_sleep example_experiment ''eval_input'' ''continuous'' 60
            (example_world\<lparr>clock := 200\<rparr>)) = Some (OtherError ''checkpoint unreadable'')"
  proof -
    from later run raised
    have "eval_loop (Suc (Suc 0) + Suc 0) exact_sleep example_experiment ''eval_input'' ''continuous'' 60
            (example_world\<lparr>clock := 200\<rparr>) =
          (Some (OtherError ''checkpoint unreadable''),
           snd (call_estimator example_experiment
             (Evaluate ''eval_input'' (eval_steps example_experiment) (eval_metrics example_experiment)
                ''continuous'')
             (snd (eval_loop (Suc (Suc 0)) exact_sleep example_experiment ''eval_input'' ''continuous'' 60
                (example_world\<lparr>clock := 200\<rparr>)))))"
      by blast
    then show ?thesis by (simp del: eval_loop.simps)
  qed
  have F: "fst (private_continuous_eval (Suc (Suc 0) + Suc 0) exact_sleep example_experiment ''eval_input''
            ''continuous'' 5 60 (example_world\<lparr>clock := 200\<rparr>)) =
       Some (OtherError ''checkpoint unreadable'')"
  proof -
    have "(0::real) \<le> 5" by simp
    with later prun praised
    have "private_continuous_eval (Suc (Suc 0) + Suc 0) exact_sleep example_experiment ''eval_input''
            ''continuous'' 5 60 (example_world\<lparr>clock := 200\<rparr>) =
          (Some (OtherError ''checkpoint unreadable''),
           snd (call_estimator example_experiment
             (Evaluate ''eval_input'' (eval_steps example_experiment) (eval_metrics example_experiment)
                ''continuous'')
             (snd (private_continuous_eval (Suc (Suc 0)) exact_sleep example_experiment ''eval_input''
                ''continuous'' 5 60 (example_world\<lparr>clock := 200\<rparr>)))))"
      by blast
    then show ?thesis by (simp del: eval_loop.simps)
  qed
  from A B C D run E prun F show ?thesis by blast
qed

subsection \<open>A pass that finds the Estimator not fitted\<close>

text \<open>
  Claim C10. A pass of the loop of \<^verbatim>\<open>_continuous_eval\<close> in which the Estimator raises
  NotFittedError goes through the throttle like any other: after the call and the
  warning, the rest of the throttle window is slept when the call took less than the
  window, and nothing is slept otherwise. On a platform whose sleeps last at least as
  long as asked, the next attempt is the next call of the Estimator in the run and it
  begins at least \<open>throttle_delay_secs\<close> after the failed one began.
\<close>

theorem not_fitted_pass_is_throttled:
  assumes "sleeps_long_enough slp"
    and "result (estimator e w (Evaluate input_fn (eval_steps e) (eval_metrics e) name)) = Inl NotFittedError"
  shows "(let c = Evaluate input_fn (eval_steps e) (eval_metrics e) name;
              d = elapsed (estimator e w c);
              w' = snd (eval_iteration slp e input_fn name thr w)
          in fst (eval_iteration slp e input_fn name thr w) = Inr ()
           \<and> events_since w w' =
               (clock w, Call c) #
               (clock w + d,
                Log WARNING
                  ''Estimator is not fitted yet, skipping evaluation. Increase 'delay_secs' to avoid this warning.''
                  []) #
               (if d < thr
                then [(clock w + d, Log INFO ''Waiting %f secs before starting next eval run.'' [thr - d]),
                      (clock w + d, Sleep (thr - d))]
                else [])
           \<and> clock w + thr \<le> clock w'
           \<and> take 2 (calls_of (events_since w (snd (eval_loop (Suc (Suc n)) slp e input_fn name thr w)))) =
               [(clock w, c), (clock w', c)])"
proof -
  let ?c = "Evaluate input_fn (eval_steps e) (eval_metrics e) name"
  let ?d = "elapsed (estimator e w ?c)"
  let ?w' = "snd (eval_iteration slp e input_fn name thr w)"
  note eq = eval_iteration_not_fitted [OF assms(2), of slp thr]
  have f: "fst (eval_iteration slp e input_fn name thr w) = Inr ()"
    by (simp add: eq throttle_wait_fst)
  have ev: "events_since w ?w' =
               (clock w, Call ?c) #
               (clock w + ?d,
                Log WARNING
                  ''Estimator is not fitted yet, skipping evaluation. Increase 'delay_secs' to avoid this warning.''
                  []) #
               (if ?d < thr
                then [(clock w + ?d, Log INFO ''Waiting %f secs before starting next eval run.'' [thr - ?d]),
                      (clock w + ?d, Sleep (thr - ?d))]
                else [])"
    by (simp add: eq events_since_def throttle_wait_trace logging_simps call_estimator_simps)
  have ck: "clock w + thr \<le> clock ?w'"
    using eval_iteration_clock [OF assms(1) f] .
  have step: "eval_loop (Suc (Suc n)) slp e input_fn name thr w = eval_loop (Suc n) slp e input_fn name thr ?w'"
    using f by (cases "eval_iteration slp e input_fn name thr w") simp
  from eval_iteration_trace [of slp e input_fn name thr w] obtain rest
    where tr: "trace ?w' = trace w @ (clock w, Call ?c) # rest" and nc: "calls_of rest = []"
    by blast
  from eval_loop_first_call [of ?w' n slp e input_fn name thr] obtain rest'
    where "events_since ?w' (snd (eval_loop (Suc n) slp e input_fn name thr ?w')) = (clock ?w', Call ?c) # rest'"
    by blast
  moreover from eval_loop_extends [of "Suc n" slp e input_fn name thr ?w'] obtain new
    where "trace (snd (eval_loop (Suc n) slp e input_fn name thr ?w')) = trace ?w' @ new"
    by blast
  ultimately have "trace (snd (eval_loop (Suc n) slp e input_fn name thr ?w')) =
      trace w @ ((clock w, Call ?c) # rest) @ (clock ?w', Call ?c) # rest'"
    using tr by (simp add: events_since_def)
  then have "calls_of (events_since w (snd (eval_loop (Suc (Suc n)) slp e input_fn name thr w))) =
      (clock w, ?c) # (clock ?w', ?c) # calls_of rest'"
    using nc unfolding step by (simp add: events_since_def calls_of_append)
  then have "take 2 (calls_of (events_since w (snd (eval_loop (Suc (Suc n)) slp e input_fn name thr w)))) =
               [(clock w, ?c), (clock ?w', ?c)]"
    by simp
  with f ev ck show ?thesis
    unfolding Let_def by blast
qed

theorem not_fitted_pass_is_throttled_witness:
  "sleeps_long_enough exact_sleep
   \<and> fst (eval_iteration exact_sleep example_experiment ''eval_input'' ''continuous'' 60 example_world) = Inr ()
   \<and> events_since example_world
        (snd (eval_iteration exact_sleep example_experiment ''eval_input'' ''continuous'' 60 example_world)) =
       [(0, Call (Evaluate ''eval_input'' (Some 100) None ''continuous'')),
        (10, Log WARNING
           ''Estimator is not fitted yet, skipping evaluation. Increase 'delay_secs' to avoid this warning.''
           []),
        (10, Log INFO ''Waiting %f secs before starting next eval run.'' [50]),
        (10, Sleep 50)]
   \<and> 60 \<le> clock (snd (eval_iteration exact_sleep example_experiment ''eval_input'' ''continuous'' 60 example_world))
   \<and> take 2 (calls_of (events_since example_world
        (snd (eval_loop (Suc (Suc 0)) exact_sleep example_experiment ''eval_input'' ''continuous'' 60 example_world)))) =
       [(0, Evaluate ''eval_input'' (Some 100) None ''continuous''),
        (clock (snd (eval_iteration exact_sleep example_experiment ''eval_input'' ''continuous'' 60 example_world)),
         Evaluate ''eval_input'' (Some 100) None ''continuous'')]"
proof -
  have h: "sleeps_long_enough exact_sleep"
    by (simp add: sleeps_long_enough_def exact_sleep_def)
  have c: "clock example_world = 0"
    by (simp add: example_world_def)
  have nf: "result (estimator example_experiment example_world
      (Evaluate ''eval_input'' (eval_steps example_experiment) (eval_metrics example_experiment) ''continuous'')) =
      Inl NotFittedError"
    by (simp add: example_experiment_simps example_estimator_def c)
  have el: "elapsed (example_estimator example_world (Evaluate ''eval_input'' (Some 100) None ''continuous'')) = 10"
    by (simp add: example_estimator_def c)
  from not_fitted_pass_is_throttled [OF h nf, where thr = 60 and n = 0] h
  show ?thesis
    by (simp add: Let_def example_experiment_simps c el)
qed

subsection \<open>The two public loops\<close>

lemma eval_loop_calls:
  "\<exists>new. trace (snd (eval_loop n slp e input_fn name thr w)) = trace w @ new
     \<and> map snd (calls_of new) =
         replicate (length (calls_of new)) (Evaluate input_fn (eval_steps e) (eval_metrics e) name)"
proof (induction n arbitrary: w)
  case 0
  show ?case by simp
next
  case (Suc n)
  obtain r w1 where it: "eval_iteration slp e input_fn name thr w = (r, w1)"
    by (cases "eval_iteration slp e input_fn name thr w")
  from eval_iteration_trace [of slp e input_fn name thr w] it
  obtain rest where tr: "trace w1 = trace w @ (clock w, Call (Evaluate input_fn (eval_steps e) (eval_metrics e) name)) # rest"
    and nc: "calls_of rest = []" by auto
  show ?case
  proof (cases r)
    case (Inl x)
    with it tr nc show ?thesis by simp
  next
    case (Inr u)
    from Suc.IH [of w1] obtain new where
      n1: "trace (snd (eval_loop n slp e input_fn name thr w1)) = trace w1 @ new"
      and n2: "map snd (calls_of new) =
         replicate (length (calls_of new)) (Evaluate input_fn (eval_steps e) (eval_metrics e) name)"
      by blast
    let ?new = "(clock w, Call (Evaluate input_fn (eval_steps e) (eval_metrics e) name)) # rest @ new"
    have "trace (snd (eval_loop (Suc n) slp e input_fn name thr w)) = trace w @ ?new"
      using it Inr n1 tr by simp
    moreover have "map snd (calls_of ?new) =
         replicate (length (calls_of ?new)) (Evaluate input_fn (eval_steps e) (eval_metrics e) name)"
      using nc n2 by (simp add: calls_of_append)
    ultimately show ?thesis by blast
  qed
qed

lemma private_continuous_eval_calls:
  "map snd (calls_of (events_since w (snd (private_continuous_eval n slp e input_fn name d thr w)))) =
     replicate (length (calls_of (events_since w (snd (private_continuous_eval n slp e input_fn name d thr w)))))
       (Evaluate input_fn (eval_steps e) (eval_metrics e) name)"
proof (cases "d < 0")
  case True
  then show ?thesis
    by (simp add: private_continuous_eval_def time_sleep_def events_since_def logging_simps)
next
  case False
  let ?w1 = "if d = 0 then w
        else snd (time_sleep slp d (logging INFO ''Waiting %f secs before starting eval.'' [d] w))"
  from False have un: "private_continuous_eval n slp e input_fn name d thr w =
     eval_loop n slp e input_fn name thr ?w1"
    by (simp add: private_continuous_eval_unfold)
  from False have "\<exists>pre. trace ?w1 = trace w @ pre \<and> calls_of pre = []"
    by (simp add: time_sleep_trace logging_simps)
  then obtain pre where p: "trace ?w1 = trace w @ pre" "calls_of pre = []"
    by blast
  from eval_loop_calls [of n slp e input_fn name thr ?w1] obtain new where
    "trace (snd (eval_loop n slp e input_fn name thr ?w1)) = trace ?w1 @ new"
    "map snd (calls_of new) =
         replicate (length (calls_of new)) (Evaluate input_fn (eval_steps e) (eval_metrics e) name)"
    by blast
  with p show ?thesis
    unfolding un by (simp add: events_since_def calls_of_append)
qed

text \<open>
  Claim C6. \<^verbatim>\<open>continuous_eval\<close> is \<^verbatim>\<open>_continuous_eval\<close> on the stored
  \<^verbatim>\<open>eval_input_fn\<close> with the name \<^verbatim>\<open>continuous\<close>, and
  \<^verbatim>\<open>continuous_eval_on_train_data\<close> is the same \<^verbatim>\<open>_continuous_eval\<close> on the stored
  \<^verbatim>\<open>train_input_fn\<close> with the name \<^verbatim>\<open>continuous_on_train_data\<close>, both with the delay
  and the throttle they were given. Every call of the Estimator in a run of the first is
  \<^verbatim>\<open>evaluate\<close> with \<^verbatim>\<open>eval_input_fn\<close>, the stored \<^verbatim>\<open>eval_steps\<close> and \<^verbatim>\<open>eval_metrics\<close>
  and the name \<^verbatim>\<open>continuous\<close>; every call in a run of the second differs from that in
  the input function and the name only.
\<close>

theorem continuous_eval_variants:
  "continuous_eval n slp e delay_secs thr w =
     private_continuous_eval n slp e (eval_input_fn e) ''continuous'' delay_secs thr w
   \<and> continuous_eval_on_train_data n slp e delay_secs thr w =
     private_continuous_eval n slp e (train_input_fn e) ''continuous_on_train_data'' delay_secs thr w
   \<and> map snd (calls_of (events_since w (snd (continuous_eval n slp e delay_secs thr w)))) =
       replicate (length (calls_of (events_since w (snd (continuous_eval n slp e delay_secs thr w)))))
         (Evaluate (eval_input_fn e) (eval_steps e) (eval_metrics e) ''continuous'')
   \<and> map snd (calls_of (events_since w (snd (continuous_eval_on_train_data n slp e delay_secs thr w)))) =
       replicate (length (calls_of (events_since w
                    (snd (continuous_eval_on_train_data n slp e delay_secs thr w)))))
         (Evaluate (train_input_fn e) (eval_steps e) (eval_metrics e) ''continuous_on_train_data'')"
  unfolding continuous_eval_def continuous_eval_on_train_data_def
  using private_continuous_eval_calls [of w n slp e "eval_input_fn e" "''continuous''" delay_secs thr]
    private_continuous_eval_calls [of w n slp e "train_input_fn e" "''continuous_on_train_data''" delay_secs thr]
  by simp

theorem continuous_eval_variants_witness:
  "map snd (calls_of (events_since example_world
       (snd (continuous_eval (Suc (Suc 0)) exact_sleep example_experiment 5 60 example_world)))) =
     [Evaluate ''eval_input'' (Some 100) None ''continuous'',
      Evaluate ''eval_input'' (Some 100) None ''continuous'']
   \<and> map snd (calls_of (events_since example_world
       (snd (continuous_eval_on_train_data (Suc (Suc 0)) exact_sleep example_experiment 5 60 example_world)))) =
     [Evaluate ''train_input'' (Some 100) None ''continuous_on_train_data'',
      Evaluate ''train_input'' (Some 100) None ''continuous_on_train_data'']"
proof -
  note defs = private_continuous_eval_def eval_iteration_def throttle_wait_def
    call_estimator_def time_sleep_def logging_def events_since_def Let_def
    example_experiment_def example_estimator_def example_world_def exact_sleep_def
  have l1: "length (calls_of (events_since example_world
       (snd (private_continuous_eval (Suc (Suc 0)) exact_sleep example_experiment
               ''eval_input'' ''continuous'' 5 60 example_world)))) = Suc (Suc 0)"
    by (simp add: defs)
  have l2: "length (calls_of (events_since example_world
       (snd (private_continuous_eval (Suc (Suc 0)) exact_sleep example_experiment
               ''train_input'' ''continuous_on_train_data'' 5 60 example_world)))) = Suc (Suc 0)"
    by (simp add: defs)
  from continuous_eval_variants [of "Suc (Suc 0)" exact_sleep example_experiment 5 60 example_world]
  show ?thesis
    by (clarsimp simp: example_experiment_simps l1 l2)
qed

subsection \<open>The local run\<close>

lemma monitor_list_heap: "heap w' = heap w \<Longrightarrow> monitor_list e w' = monitor_list e w"
  by (simp add: monitor_list_def split: option.splits)

lemma local_run_experiment: "fst (snd (local_run slp e w)) = fst (local_run_monitors e w)"
  by (simp add: local_run_unfold Let_def split: sum.splits)

lemma local_run_heap: "heap (snd (snd (local_run slp e w))) = heap (snd (local_run_monitors e w))"
  by (simp add: local_run_unfold Let_def call_estimator_simps split: sum.splits)

lemma local_run_monitors_set: "train_monitors (fst (local_run_monitors e w)) \<noteq> None"
  by (simp add: local_run_monitors_def Let_def split: prod.splits option.splits)

lemma local_run_monitors_frame:
  "fst (local_run_monitors e w) = e\<lparr>train_monitors := train_monitors (fst (local_run_monitors e w))\<rparr>"
  by (simp add: local_run_monitors_def Let_def split: prod.splits option.splits)

lemma local_run_monitors_append:
  assumes "local_eval_frequency e = Some n" and "n \<noteq> 0"
  shows "monitor_list (fst (local_run_monitors e w)) (snd (local_run_monitors e w)) =
     monitor_list e w @ [ValidationMonitor (eval_input_fn e) (eval_steps e) (eval_metrics e) n]"
  using assms
  by (auto simp add: local_run_monitors_def monitor_list_def new_list_def Let_def
      split: prod.splits option.splits if_splits)

lemma local_run_monitors_same:
  assumes "local_eval_frequency e = None \<or> local_eval_frequency e = Some 0"
  shows "monitor_list (fst (local_run_monitors e w)) (snd (local_run_monitors e w)) = monitor_list e w"
    and "heap (snd (local_run_monitors e w)) = heap w
       \<or> heap (snd (local_run_monitors e w)) = (heap w)(next_ref w := [])"
    and "monitor_list e w \<noteq> [] \<Longrightarrow> local_run_monitors e w = (e, w)"
  using assms
  by (auto simp add: local_run_monitors_def monitor_list_def new_list_def Let_def
      split: prod.splits option.splits if_splits)

lemma local_run_monitors_in_place:
  "monitor_list e w \<noteq> [] \<Longrightarrow> train_monitors (fst (local_run_monitors e w)) = train_monitors e"
  by (auto simp add: local_run_monitors_def monitor_list_def new_list_def Let_def
      split: prod.splits option.splits if_splits)

text \<open>
  Claim C5. When \<^verbatim>\<open>local_eval_frequency\<close> is set to a step interval \<open>n\<close> (a number other
  than zero, as every interval is), \<^verbatim>\<open>local_run\<close> leaves the Experiment with a monitor
  list that is the list it had (none counting as empty) with one monitor added at the
  end: the ValidationMonitor on the stored \<^verbatim>\<open>eval_input_fn\<close>, \<^verbatim>\<open>eval_steps\<close> and
  \<^verbatim>\<open>eval_metrics\<close>, every \<open>n\<close> steps. No other field changes. The list is already so
  when \<^verbatim>\<open>fit\<close> is called. When \<^verbatim>\<open>fit\<close> returns, the run consists of the call of
  \<^verbatim>\<open>fit\<close> at once and the call of \<^verbatim>\<open>evaluate\<close> as soon as \<^verbatim>\<open>fit\<close> has returned, with
  no log and no sleep, and \<^verbatim>\<open>local_run\<close> returns what \<^verbatim>\<open>evaluate\<close> returned, whatever
  \<^verbatim>\<open>fit\<close> returned.
\<close>

theorem local_run_with_frequency:
  assumes "local_eval_frequency e = Some n" and "n \<noteq> 0"
  shows "(let e' = fst (snd (local_run slp e w));
              w' = snd (snd (local_run slp e w));
              w1 = snd (local_run_monitors e w);
              m = ValidationMonitor (eval_input_fn e) (eval_steps e) (eval_metrics e) n;
              cF = Fit (train_input_fn e) (train_steps e) (train_monitors e');
              cE = Evaluate (eval_input_fn e) (eval_steps e) (eval_metrics e) ''one_pass'';
              w2 = snd (call_estimator e cF w1)
          in train_monitors e' \<noteq> None
           \<and> e' = e\<lparr>train_monitors := train_monitors e'\<rparr>
           \<and> monitor_list e' w' = monitor_list e w @ [m]
           \<and> monitor_list e' w1 = monitor_list e w @ [m]
           \<and> clock w1 = clock w
           \<and> (result (estimator e w1 cF) = Inr v \<longrightarrow>
                events_since w w' =
                  [(clock w, Call cF), (clock w + elapsed (estimator e w1 cF), Call cE)]
              \<and> fst (local_run slp e w) = result (estimator e w2 cE)))"
proof -
  let ?e1 = "fst (local_run_monitors e w)"
  let ?w1 = "snd (local_run_monitors e w)"
  have ml: "monitor_list ?e1 ?w1 =
      monitor_list e w @ [ValidationMonitor (eval_input_fn e) (eval_steps e) (eval_metrics e) n]"
    using local_run_monitors_append [OF assms] .
  have ml': "monitor_list ?e1 (snd (snd (local_run slp e w))) = monitor_list ?e1 ?w1"
    by (rule monitor_list_heap) (simp add: local_run_heap)
  have fr: "?e1 = e\<lparr>train_monitors := train_monitors ?e1\<rparr>"
    using local_run_monitors_frame [of e w] .
  have run: "events_since w (snd (snd (local_run slp e w))) =
        [(clock w, Call (Fit (train_input_fn e) (train_steps e) (train_monitors ?e1))),
         (clock w + elapsed (estimator e ?w1 (Fit (train_input_fn e) (train_steps e) (train_monitors ?e1))),
          Call (Evaluate (eval_input_fn e) (eval_steps e) (eval_metrics e) ''one_pass''))]
      \<and> fst (local_run slp e w) =
          result (estimator e (snd (call_estimator e (Fit (train_input_fn e) (train_steps e) (train_monitors ?e1)) ?w1))
            (Evaluate (eval_input_fn e) (eval_steps e) (eval_metrics e) ''one_pass''))"
    if "result (estimator e ?w1 (Fit (train_input_fn e) (train_steps e) (train_monitors ?e1))) = Inr v"
    using that
    by (simp add: local_run_unfold Let_def local_run_monitors_estimator local_run_monitors_fields
        local_run_monitors_world events_since_def call_estimator_def)
  from ml ml' fr run local_run_monitors_set [of e w] local_run_monitors_world(1) [of e w]
  show ?thesis
    unfolding Let_def local_run_experiment by simp
qed

theorem local_run_with_frequency_witness:
  "train_monitors (fst (snd (local_run exact_sleep example_experiment example_world))) = Some 0
   \<and> monitor_list (fst (snd (local_run exact_sleep example_experiment example_world)))
        (snd (snd (local_run exact_sleep example_experiment example_world))) =
       [ValidationMonitor ''eval_input'' (Some 100) None 5]
   \<and> events_since example_world (snd (snd (local_run exact_sleep example_experiment example_world))) =
       [(0, Call (Fit ''train_input'' (Some 1000) (Some 0))),
        (100, Call (Evaluate ''eval_input'' (Some 100) None ''one_pass''))]
   \<and> fst (local_run exact_sleep example_experiment example_world) = Inr (Ret 2)"
proof -
  have f: "local_eval_frequency example_experiment = Some 5" and n: "(5::int) \<noteq> 0"
    by (simp_all add: example_experiment_def)
  have c: "clock example_world = 0"
    by (simp add: example_world_def)
  have m0: "monitor_list example_experiment example_world = []"
    by (simp add: monitor_list_def example_experiment_def)
  have r: "train_monitors (fst (local_run_monitors example_experiment example_world)) = Some 0"
    by (simp add: local_run_monitors_def new_list_def Let_def example_experiment_def example_world_def)
  from local_run_with_frequency [OF f n, of exact_sleep example_world "Ret 1"]
  show ?thesis
    by (clarsimp simp: Let_def local_run_experiment r c m0 example_experiment_simps example_estimator_def
        local_run_monitors_world call_estimator_simps)
qed

text \<open>
  Claim C7. When \<^verbatim>\<open>local_eval_frequency\<close> is None, \<^verbatim>\<open>local_run\<close> leaves the Experiment
  with the monitors it had: the field is a list afterwards, empty when it was None (or
  an empty list) before, and the same list object with the same content otherwise. No
  list object that existed before has changed.
\<close>

theorem local_run_without_frequency:
  assumes "local_eval_frequency e = None"
  shows "(let e' = fst (snd (local_run slp e w));
              w' = snd (snd (local_run slp e w))
          in train_monitors e' \<noteq> None
           \<and> e' = e\<lparr>train_monitors := train_monitors e'\<rparr>
           \<and> monitor_list e' w' = monitor_list e w
           \<and> (heap w' = heap w \<or> heap w' = (heap w)(next_ref w := []))
           \<and> (monitor_list e w \<noteq> [] \<longrightarrow> e' = e \<and> heap w' = heap w))"
proof -
  let ?e1 = "fst (local_run_monitors e w)"
  let ?w1 = "snd (local_run_monitors e w)"
  from assms have a: "local_eval_frequency e = None \<or> local_eval_frequency e = Some 0"
    by simp
  have "monitor_list ?e1 (snd (snd (local_run slp e w))) = monitor_list ?e1 ?w1"
    by (rule monitor_list_heap) (simp add: local_run_heap)
  with local_run_monitors_same(1) [OF a, of w]
  have ml: "monitor_list ?e1 (snd (snd (local_run slp e w))) = monitor_list e w"
    by simp
  have hp: "heap (snd (snd (local_run slp e w))) = heap w
      \<or> heap (snd (snd (local_run slp e w))) = (heap w)(next_ref w := [])"
    using local_run_monitors_same(2) [OF a, of w] by (simp add: local_run_heap)
  have same: "?e1 = e \<and> heap (snd (snd (local_run slp e w))) = heap w"
    if "monitor_list e w \<noteq> []"
    using local_run_monitors_same(3) [OF a that] by (simp add: local_run_heap)
  from ml hp same local_run_monitors_set [of e w] local_run_monitors_frame [of e w]
  show ?thesis
    unfolding Let_def local_run_experiment by blast
qed

theorem local_run_without_frequency_witness:
  "monitor_list
     (fst (snd (local_run exact_sleep (example_experiment\<lparr>local_eval_frequency := None\<rparr>) example_world)))
     (snd (snd (local_run exact_sleep (example_experiment\<lparr>local_eval_frequency := None\<rparr>) example_world))) = []
   \<and> train_monitors
       (fst (snd (local_run exact_sleep (example_experiment\<lparr>local_eval_frequency := None\<rparr>) example_world)))
       \<noteq> None
   \<and> fst (snd (local_run exact_sleep
        (example_experiment\<lparr>train_monitors := Some 0, local_eval_frequency := None\<rparr>)
        (example_world\<lparr>heap := (heap example_world)(0 := [OtherMonitor 7]), next_ref := Suc 0\<rparr>))) =
       example_experiment\<lparr>train_monitors := Some 0, local_eval_frequency := None\<rparr>
   \<and> heap (snd (snd (local_run exact_sleep
        (example_experiment\<lparr>train_monitors := Some 0, local_eval_frequency := None\<rparr>)
        (example_world\<lparr>heap := (heap example_world)(0 := [OtherMonitor 7]), next_ref := Suc 0\<rparr>)))) =
       (heap example_world)(0 := [OtherMonitor 7])"
proof -
  have m0: "monitor_list (example_experiment\<lparr>local_eval_frequency := None\<rparr>) example_world = []"
    by (simp add: monitor_list_def example_experiment_def)
  have m1: "monitor_list (example_experiment\<lparr>train_monitors := Some 0, local_eval_frequency := None\<rparr>)
      (example_world\<lparr>heap := (heap example_world)(0 := [OtherMonitor 7]), next_ref := Suc 0\<rparr>) = [OtherMonitor 7]"
    by (simp add: monitor_list_def)
  from local_run_without_frequency [of "example_experiment\<lparr>local_eval_frequency := None\<rparr>"
      exact_sleep example_world]
    local_run_without_frequency
      [of "example_experiment\<lparr>train_monitors := Some 0, local_eval_frequency := None\<rparr>" exact_sleep
        "example_world\<lparr>heap := (heap example_world)(0 := [OtherMonitor 7]), next_ref := Suc 0\<rparr>"]
  show ?thesis
    by (clarsimp simp: Let_def m0 m1)
qed

text \<open>
  Claim C9. When \<^verbatim>\<open>local_eval_frequency\<close> is set to a step interval \<open>n\<close> (a number other
  than zero), two calls of \<^verbatim>\<open>local_run\<close> in a row leave the Experiment with the monitors
  it had and the periodic ValidationMonitor twice behind them. The second call extends
  the list object the first one left in the field, and when the Experiment held a list
  that was not empty this is the list object it held from the start.
\<close>

theorem local_run_twice:
  assumes "local_eval_frequency e = Some n" and "n \<noteq> 0"
  shows "(let e1 = fst (snd (local_run slp e w));
              w1 = snd (snd (local_run slp e w));
              e2 = fst (snd (local_run slp e1 w1));
              w2 = snd (snd (local_run slp e1 w1));
              m = ValidationMonitor (eval_input_fn e) (eval_steps e) (eval_metrics e) n
          in monitor_list e1 w1 = monitor_list e w @ [m]
           \<and> monitor_list e2 w2 = monitor_list e w @ [m, m]
           \<and> train_monitors e2 = train_monitors e1
           \<and> train_monitors e2 \<noteq> None
           \<and> (monitor_list e w \<noteq> [] \<longrightarrow> train_monitors e2 = train_monitors e))"
proof -
  let ?m = "ValidationMonitor (eval_input_fn e) (eval_steps e) (eval_metrics e) n"
  let ?e1 = "fst (local_run_monitors e w)"
  let ?w1 = "snd (snd (local_run slp e w))"
  let ?e2 = "fst (local_run_monitors ?e1 ?w1)"
  let ?w2 = "snd (snd (local_run slp ?e1 ?w1))"
  have "monitor_list ?e1 ?w1 = monitor_list ?e1 (snd (local_run_monitors e w))"
    by (rule monitor_list_heap) (simp add: local_run_heap)
  with local_run_monitors_append [OF assms, of w]
  have first: "monitor_list ?e1 ?w1 = monitor_list e w @ [?m]"
    by simp
  have f1: "local_eval_frequency ?e1 = Some n"
    using assms(1) by (simp add: local_run_monitors_fields)
  have "monitor_list ?e2 ?w2 = monitor_list ?e2 (snd (local_run_monitors ?e1 ?w1))"
    by (rule monitor_list_heap) (simp add: local_run_heap)
  with local_run_monitors_append [OF f1 assms(2), of ?w1] first
  have second: "monitor_list ?e2 ?w2 = monitor_list e w @ [?m, ?m]"
    by (simp add: local_run_monitors_fields)
  from first have "monitor_list ?e1 ?w1 \<noteq> []"
    by simp
  then have keep: "train_monitors ?e2 = train_monitors ?e1"
    by (rule local_run_monitors_in_place)
  have orig: "train_monitors ?e2 = train_monitors e" if "monitor_list e w \<noteq> []"
    using keep local_run_monitors_in_place [OF that] by simp
  from first second keep orig local_run_monitors_set [of ?e1 ?w1]
  show ?thesis
    unfolding Let_def local_run_experiment by blast
qed

theorem local_run_twice_witness:
  "(let e = example_experiment\<lparr>train_monitors := Some 0\<rparr>;
        w = example_world\<lparr>heap := (heap example_world)(0 := [OtherMonitor 7]), next_ref := Suc 0\<rparr>;
        e1 = fst (snd (local_run exact_sleep e w));
        w1 = snd (snd (local_run exact_sleep e w));
        e2 = fst (snd (local_run exact_sleep e1 w1));
        w2 = snd (snd (local_run exact_sleep e1 w1))
    in monitor_list e1 w1 = [OtherMonitor 7, ValidationMonitor ''eval_input'' (Some 100) None 5]
     \<and> monitor_list e2 w2 =
         [OtherMonitor 7, ValidationMonitor ''eval_input'' (Some 100) None 5,
          ValidationMonitor ''eval_input'' (Some 100) None 5]
     \<and> train_monitors e2 = Some 0)"
proof -
  have f: "local_eval_frequency (example_experiment\<lparr>train_monitors := Some 0\<rparr>) = Some 5"
    and n: "(5::int) \<noteq> 0"
    by (simp_all add: example_experiment_def)
  have m1: "monitor_list (example_experiment\<lparr>train_monitors := Some 0\<rparr>)
      (example_world\<lparr>heap := (heap example_world)(0 := [OtherMonitor 7]), next_ref := Suc 0\<rparr>) = [OtherMonitor 7]"
    by (simp add: monitor_list_def)
  from local_run_twice [OF f n, of exact_sleep
      "example_world\<lparr>heap := (heap example_world)(0 := [OtherMonitor 7]), next_ref := Suc 0\<rparr>"]
  show ?thesis
    by (clarsimp simp: Let_def m1 example_experiment_simps)
qed

end
